theory Spec2Isabelle
  imports Main "HOL-Library.Sublist" "HOL-Library.AList"
begin

section \<open>JavaScript values\<close>

text \<open>
  The values that cross the facade: what a caller stores and what a request returns.
  Numbers are modelled as integers (the keys and counters of the program are integral;
  NaN and fractions are outside the model). An object is the list of its enumerable
  properties.
\<close>

datatype jsval =
    Undefined
  | Null
  | JBool bool
  | JNum int
  | JStr string
  | JArr "jsval list"
  | JObj "(string \<times> jsval) list"

text \<open>JavaScript's ToBoolean: what \<open>x ? a : b\<close> and \<open>x || y\<close> test.\<close>

fun truthy :: "jsval \<Rightarrow> bool" where
  "truthy Undefined = False"
| "truthy Null = False"
| "truthy (JBool b) = b"
| "truthy (JNum n) = (n \<noteq> 0)"
| "truthy (JStr s) = (s \<noteq> [])"
| "truthy (JArr xs) = True"
| "truthy (JObj ps) = True"

text \<open>A key as the interface declares it: \<open>string | number\<close>.\<close>

datatype key = KNum int | KStr string

fun jsval_of_key :: "key \<Rightarrow> jsval" where
  "jsval_of_key (KNum n) = JNum n"
| "jsval_of_key (KStr s) = JStr s"

fun key_of_jsval :: "jsval \<Rightarrow> key option" where
  "key_of_jsval (JNum n) = Some (KNum n)"
| "key_of_jsval (JStr s) = Some (KStr s)"
| "key_of_jsval v = None"

text \<open>
  An optional key \<open>?(string | number)\<close>: \<open>None\<close> is \<open>null\<close>. The test
  \<open>key ? ... : ...\<close> of the source is ToBoolean of the argument.
\<close>

fun truthy_key :: "key option \<Rightarrow> bool" where
  "truthy_key None = False"
| "truthy_key (Some k) = truthy (jsval_of_key k)"

fun truthy_name :: "string option \<Rightarrow> bool" where
  "truthy_name None = False"
| "truthy_name (Some s) = (s \<noteq> [])"

subsection \<open>Strings: decimal numerals, String(), JSON.stringify\<close>

definition nl :: string where
  "nl = [CHR 0x0A]"

text \<open>The decimal digits of a number, as Number.prototype.toString prints an integer.\<close>

definition digit_char :: "nat \<Rightarrow> char" where
  "digit_char d = ''0123456789'' ! d"

function digits :: "nat \<Rightarrow> string" where
  "digits n = (if 10 \<le> n then digits (n div 10) @ [digit_char (n mod 10)] else [digit_char n])"
  by pat_completeness auto
termination
  by (relation "measure id") auto

definition String_number :: "int \<Rightarrow> string" where
  "String_number n = (if 0 \<le> n then digits (nat n) else CHR ''-'' # digits (nat (- n)))"

fun intercalate :: "string \<Rightarrow> string list \<Rightarrow> string" where
  "intercalate sep [] = []"
| "intercalate sep [x] = x"
| "intercalate sep (x # y # ys) = x @ sep @ intercalate sep (y # ys)"

text \<open>String(v): the conversion that \<open>"..." + v\<close> applies.\<close>

fun String :: "jsval \<Rightarrow> string" where
  "String Undefined = ''undefined''"
| "String Null = ''null''"
| "String (JBool b) = (if b then ''true'' else ''false'')"
| "String (JNum n) = String_number n"
| "String (JStr s) = s"
| "String (JArr xs) =
     intercalate '','' (map (\<lambda>x. if x = Undefined \<or> x = Null then [] else String x) xs)"
| "String (JObj ps) = ''[object Object]''"

fun String_key :: "key option \<Rightarrow> string" where
  "String_key None = ''null''"
| "String_key (Some k) = String (jsval_of_key k)"

fun escape :: "string \<Rightarrow> string" where
  "escape [] = []"
| "escape (c # cs) =
     (if c = CHR 0x22 \<or> c = CHR 0x5C then CHR 0x5C # c # escape cs else c # escape cs)"

definition quote :: "string \<Rightarrow> string" where
  "quote s = [CHR 0x22] @ escape s @ [CHR 0x22]"

text \<open>
  JSON.stringify on the values of the model: an undefined property is left out of an
  object and printed as null inside an array; only the quote and the backslash are
  escaped.
\<close>

fun json :: "jsval \<Rightarrow> string" where
  "json Undefined = ''null''"
| "json Null = ''null''"
| "json (JBool b) = (if b then ''true'' else ''false'')"
| "json (JNum n) = String_number n"
| "json (JStr s) = quote s"
| "json (JArr xs) = ''['' @ intercalate '','' (map json xs) @ '']''"
| "json (JObj ps) =
     ''{'' @ intercalate '',''
        (map (\<lambda>p. quote (fst p) @ '':'' @ json (snd p)) (filter (\<lambda>p. snd p \<noteq> Undefined) ps))
      @ ''}''"

text \<open>\<open>"..." + JSON.stringify(v)\<close>: JSON.stringify(undefined) is undefined.\<close>

definition JSON_stringify :: "jsval \<Rightarrow> string" where
  "JSON_stringify v = (if v = Undefined then ''undefined'' else json v)"

section \<open>Errors and promises\<close>

text \<open>
  A native error of the storage engine (a DOMException): its name, its message and its
  enumerable properties. An event of the engine: its enumerable properties and the
  \<open>error\<close> of its target (a dispatched event always has its target).
\<close>

datatype DOMException =
  DOMException (exn_name: string) (exn_message: string) (exn_props: "(string \<times> jsval) list")

datatype event =
  Event (ev_props: "(string \<times> jsval) list") (ev_target_error: "DOMException option")

text \<open>
  extractErrorProperties copies every enumerable property of its argument into a fresh
  object and serialises that; the argument is given by its enumerable properties
  (none for \<open>null\<close>).
\<close>

definition extractErrorProperties :: "(string \<times> jsval) list \<Rightarrow> string" where
  "extractErrorProperties e = JSON_stringify (JObj e)"

fun props_of_error :: "DOMException option \<Rightarrow> (string \<times> jsval) list" where
  "props_of_error None = []"
| "props_of_error (Some e) = exn_props e"

text \<open>\<open>"..." + error\<close> for an error object or null: Error.prototype.toString.\<close>

fun String_error :: "DOMException option \<Rightarrow> string" where
  "String_error None = ''null''"
| "String_error (Some e) =
     (if exn_name e = [] then exn_message e
      else if exn_message e = [] then exn_name e
      else exn_name e @ '': '' @ exn_message e)"

text \<open>
  Modelled from the spec: the error type DbError, whose class is imported from
  common/error/DbError and is not among the sources. The spec (4.2) gives it a
  human-readable message and an optional causing error or native event.
\<close>

datatype cause = ErrorCause DOMException | EventCause event

datatype DbError = DbError (message: string) (cause: "cause option")

text \<open>
  What a promise can be rejected with: JavaScript lets any value through, so a native
  error that nobody wrapped is a possible rejection value.
\<close>

datatype rejection = Typed DbError | Native DOMException

datatype 'a promise = Pending | Resolved 'a | Rejected rejection

text \<open>
  Promise.fromCallback hands the body a node-style callback: \<open>callback(err)\<close> rejects,
  \<open>callback(null, value)\<close> resolves, and only the first call settles the promise.
\<close>

datatype 'a callback_args = CbError rejection | CbValue 'a

fun callback :: "'a promise \<Rightarrow> 'a callback_args \<Rightarrow> 'a promise" where
  "callback Pending (CbError e) = Rejected e"
| "callback Pending (CbValue v) = Resolved v"
| "callback p a = p"

fun pending :: "'a promise \<Rightarrow> bool" where
  "pending Pending = True"
| "pending p = False"

text \<open>\<open>promise.then(f)\<close> for a function that neither throws nor returns a promise.\<close>

fun then_promise :: "'a promise \<Rightarrow> ('a \<Rightarrow> 'b) \<Rightarrow> 'b promise" where
  "then_promise Pending f = Pending"
| "then_promise (Resolved v) f = Resolved (f v)"
| "then_promise (Rejected e) f = Rejected e"

section \<open>The requests of a transaction\<close>

type_synonym ObjectStoreName = string

type_synonym IndexName = string

text \<open>
  How the engine answers one request of the wrapper: the call that places the request
  raises inside the \<open>try\<close> block, or the request fires its error event (with
  \<open>request.error\<close>, which may be null), or it fires its success event with a result.
\<close>

datatype 'r request =
    Throws DOMException
  | Fails event "DOMException option"
  | Succeeds 'r

fun error_message_or_none :: "DOMException option \<Rightarrow> string" where
  "error_message_or_none (Some e) = exn_message e"
| "error_message_or_none None = ''[none]''"

text \<open>IndexedDbTransaction.get, from the answer of the engine to the promise.\<close>

definition get_on :: "ObjectStoreName \<Rightarrow> jsval request \<Rightarrow> jsval promise" where
  "get_on objectStore r =
     (case r of
        Throws e \<Rightarrow>
          callback Pending (CbError (Typed (DbError
            (''IndexedDbTransaction.get().catch'' @ nl @ ''os: '' @ objectStore @ nl @
             ''message: '' @ exn_message e)
            (Some (ErrorCause e)))))
      | Fails ev err \<Rightarrow>
          callback Pending (CbError (Typed (DbError
            (''IndexedDbTransaction.get().onerror'' @ nl @ ''os: '' @ objectStore @ nl @
             ''event: '' @ extractErrorProperties (ev_props ev) @ nl @
             ''request.error:'' @ error_message_or_none err)
            (map_option ErrorCause err))))
      | Succeeds result \<Rightarrow> callback Pending (CbValue result))"

text \<open>getAsList: \<open>this.get(...).then(result => result || [])\<close>.\<close>

definition getAsList_on :: "ObjectStoreName \<Rightarrow> jsval request \<Rightarrow> jsval promise" where
  "getAsList_on objectStore r =
     then_promise (get_on objectStore r) (\<lambda>result. if truthy result then result else JArr [])"

text \<open>IndexedDbTransaction.put; the serialised value only in the error event's message.\<close>

definition put_on ::
  "ObjectStoreName \<Rightarrow> key option \<Rightarrow> jsval \<Rightarrow> jsval request \<Rightarrow> jsval promise" where
  "put_on objectStore key value r =
     (case r of
        Throws e \<Rightarrow>
          callback Pending (CbError (Typed (DbError
            (''IndexedDbTransaction.put().catch'' @ nl @ ''os: '' @ objectStore @ nl @
             ''message: '' @ exn_message e @ nl @
             ''key: '' @ String_key key @ nl @
             ''value: '' @ String value)
            (Some (ErrorCause e)))))
      | Fails ev err \<Rightarrow>
          callback Pending (CbError (Typed (DbError
            (''IndexedDbTransaction.put().onerror'' @ nl @ ''os: '' @ objectStore @ nl @
             ''event: '' @ extractErrorProperties (ev_props ev) @ nl @
             ''request.error:'' @ error_message_or_none err @ nl @
             ''key: '' @ String_key key @ nl @
             ''value: '' @ JSON_stringify value)
            (map_option ErrorCause err))))
      | Succeeds result \<Rightarrow> callback Pending (CbValue result))"

text \<open>IndexedDbTransaction.delete resolves with no value.\<close>

definition delete_on :: "ObjectStoreName \<Rightarrow> unit request \<Rightarrow> unit promise" where
  "delete_on objectStore r =
     (case r of
        Throws e \<Rightarrow>
          callback Pending (CbError (Typed (DbError
            (''IndexedDbTransaction.delete().catch'' @ nl @ ''os: '' @ objectStore @ nl @
             ''message: '' @ exn_message e)
            (Some (ErrorCause e)))))
      | Fails ev err \<Rightarrow>
          callback Pending (CbError (Typed (DbError
            (''IndexedDbTransaction.delete().onerror'' @ nl @ ''os: '' @ objectStore @ nl @
             ''event: '' @ extractErrorProperties (ev_props ev) @ nl @
             ''request.error:'' @ error_message_or_none err)
            (map_option ErrorCause err))))
      | Succeeds u \<Rightarrow> callback Pending (CbValue ()))"

text \<open>
  getAll walks a cursor: the request fires success once per entry (the handler pushes
  the entry and calls \<open>continue\<close>), then once with no cursor, or it fires its error
  event. Nothing fires after the end or after an error.
\<close>

datatype cursor_event =
    CursorAt key jsval
  | CursorEnd
  | CursorError event "DOMException option"

datatype cursor_request = OpenCursorThrows DOMException | CursorEvents "cursor_event list"

text \<open>
  The message the error handler of getAll builds is the expression
  \<open>"...os: " + objectStore + ... + "\nrequest.error:" + request.error && request.error.message\<close>.
  \<open>+\<close> binds tighter than \<open>&&\<close>: the whole concatenation is the left operand,
  and when it is truthy the value is the right operand \<open>request.error.message\<close>, whose
  evaluation raises a TypeError when \<open>request.error\<close> is null (\<open>None\<close>: the handler ends
  before it calls the callback).
\<close>

definition getAll_onerror_message ::
  "ObjectStoreName \<Rightarrow> event \<Rightarrow> DOMException option \<Rightarrow> string option" where
  "getAll_onerror_message objectStore ev err =
     (let left = ''IndexedDbTransaction.getAll().onerror'' @ nl @ ''os: '' @ objectStore @ nl @
                 ''event: '' @ extractErrorProperties (ev_props ev) @ nl @
                 ''request.error:'' @ String_error err
      in if truthy (JStr left) then map_option exn_message err else Some left)"

fun getAll_events ::
  "ObjectStoreName \<Rightarrow> cursor_event list \<Rightarrow> (key \<times> jsval) list \<Rightarrow> (key \<times> jsval) list promise" where
  "getAll_events objectStore [] keys = Pending"
| "getAll_events objectStore (CursorAt k v # es) keys =
     getAll_events objectStore es (keys @ [(k, v)])"
| "getAll_events objectStore (CursorEnd # es) keys = callback Pending (CbValue keys)"
| "getAll_events objectStore (CursorError ev err # es) keys =
     (case getAll_onerror_message objectStore ev err of
        None \<Rightarrow> Pending
      | Some m \<Rightarrow> callback Pending (CbError (Typed (DbError m (map_option ErrorCause err)))))"

definition getAll_on :: "ObjectStoreName \<Rightarrow> cursor_request \<Rightarrow> (key \<times> jsval) list promise" where
  "getAll_on objectStore r =
     (case r of
        OpenCursorThrows e \<Rightarrow>
          callback Pending (CbError (Typed (DbError
            (''IndexedDbTransaction.getAll().catch'' @ nl @ ''os: '' @ objectStore @ nl @
             ''message: '' @ exn_message e)
            (Some (ErrorCause e)))))
      | CursorEvents es \<Rightarrow> getAll_events objectStore es [])"

section \<open>The storage engine\<close>

text \<open>
  The engine (IndexedDB) is consumed through its interface. This section states the part
  of that interface the facade reaches: object stores with their key options, the
  placing of get, put and delete requests, the start of a transaction, and the
  creation and deletion of stores during an upgrade. Request errors are reported by an
  error event; misuse is reported by an exception of the call.
\<close>

definition NotFoundError :: DOMException where
  "NotFoundError = DOMException ''NotFoundError'' ''the object store or index was not found'' []"

definition ConstraintError :: DOMException where
  "ConstraintError = DOMException ''ConstraintError'' ''a constraint was not satisfied'' []"

definition DataError :: DOMException where
  "DataError = DOMException ''DataError'' ''the data provided does not meet requirements'' []"

definition ReadOnlyError :: DOMException where
  "ReadOnlyError = DOMException ''ReadOnlyError'' ''the transaction is read-only'' []"

definition InvalidStateError :: DOMException where
  "InvalidStateError = DOMException ''InvalidStateError'' ''the object is in an invalid state'' []"

definition InvalidAccessError :: DOMException where
  "InvalidAccessError = DOMException ''InvalidAccessError'' ''the operation is not supported'' []"

record store_options =
  keyPath :: "string option"
  autoIncrement :: bool

record index =
  index_keyPath :: string
  unique :: bool

text \<open>
  An object store: its options, its entries by primary key, the current number of its
  key generator (1 at first) and its indexes.
\<close>

record object_store =
  options :: store_options
  entries :: "(key \<times> jsval) list"
  generator :: int
  indexes :: "(IndexName \<times> index) list"

type_synonym stores = "(ObjectStoreName \<times> object_store) list"

record IDBDatabase =
  db_name :: string
  db_stores :: stores
  closed :: bool

record IDBTransaction =
  scope :: "ObjectStoreName list"
  readonly :: bool
  tx_stores :: stores
  finished :: bool

text \<open>The key of a value at a key path that is one property name.\<close>

datatype extracted = Failure | Invalid | Extracted key

fun extract_key :: "jsval \<Rightarrow> string \<Rightarrow> extracted" where
  "extract_key (JObj ps) kp =
     (case map_of ps kp of
        None \<Rightarrow> Failure
      | Some Undefined \<Rightarrow> Failure
      | Some x \<Rightarrow> (case key_of_jsval x of None \<Rightarrow> Invalid | Some k \<Rightarrow> Extracted k))"
| "extract_key v kp = Failure"

text \<open>\<open>db.transaction(objectStores, mode)\<close>.\<close>

definition idb_transaction ::
  "IDBDatabase \<Rightarrow> ObjectStoreName list \<Rightarrow> bool \<Rightarrow> DOMException + IDBTransaction" where
  "idb_transaction d objectStores ro =
     (if closed d then Inl InvalidStateError
      else if list_ex (\<lambda>n. map_of (db_stores d) n = None) objectStores then Inl NotFoundError
      else if objectStores = [] then Inl InvalidAccessError
      else Inr \<lparr>scope = objectStores, readonly = ro, tx_stores = db_stores d, finished = False\<rparr>)"

text \<open>\<open>transaction.objectStore(name)\<close>.\<close>

definition idb_objectStore :: "IDBTransaction \<Rightarrow> ObjectStoreName \<Rightarrow> DOMException + object_store" where
  "idb_objectStore t n =
     (if finished t then Inl InvalidStateError
      else if n \<notin> set (scope t) then Inl NotFoundError
      else (case map_of (tx_stores t) n of None \<Rightarrow> Inl NotFoundError | Some os \<Rightarrow> Inr os))"

text \<open>
  What a lookup finds: by primary key, or through a named index the first entry whose
  indexed property is the key. An unknown store or index is an exception of the call.
\<close>

definition idb_index_find :: "object_store \<Rightarrow> index \<Rightarrow> key \<Rightarrow> jsval option" where
  "idb_index_find os ix k =
     map_option snd (find (\<lambda>e. extract_key (snd e) (index_keyPath ix) = Extracted k) (entries os))"

definition idb_lookup ::
  "IDBTransaction \<Rightarrow> ObjectStoreName \<Rightarrow> key \<Rightarrow> IndexName option \<Rightarrow> DOMException + jsval option" where
  "idb_lookup t n k i =
     (case idb_objectStore t n of
        Inl e \<Rightarrow> Inl e
      | Inr os \<Rightarrow>
          (case i of
             None \<Rightarrow> Inr (map_of (entries os) k)
           | Some ixn \<Rightarrow>
               (case map_of (indexes os) ixn of
                  None \<Rightarrow> Inl NotFoundError
                | Some ix \<Rightarrow> Inr (idb_index_find os ix k))))"

text \<open>A get request succeeds with the value found, or with undefined.\<close>

definition idb_get ::
  "IDBTransaction \<Rightarrow> ObjectStoreName \<Rightarrow> key \<Rightarrow> IndexName option \<Rightarrow> jsval request" where
  "idb_get t n k i =
     (case idb_lookup t n k i of
        Inl e \<Rightarrow> Throws e
      | Inr None \<Rightarrow> Succeeds Undefined
      | Inr (Some v) \<Rightarrow> Succeeds v)"

text \<open>
  Storing an entry: refused with a ConstraintError event (which aborts the transaction)
  when a unique index already holds the indexed key under another primary key;
  otherwise the entry replaces the one under its key, and an explicit number at or
  above the generator's current number moves the generator past it.
\<close>

definition violates_unique :: "object_store \<Rightarrow> key \<Rightarrow> jsval \<Rightarrow> bool" where
  "violates_unique os k v =
     list_ex (\<lambda>ni. unique (snd ni) \<and>
        (case extract_key v (index_keyPath (snd ni)) of
           Extracted x \<Rightarrow>
             list_ex (\<lambda>e. fst e \<noteq> k \<and> extract_key (snd e) (index_keyPath (snd ni)) = Extracted x)
               (entries os)
         | _ \<Rightarrow> False))
       (indexes os)"

fun next_generator :: "object_store \<Rightarrow> key \<Rightarrow> int" where
  "next_generator os (KNum n) =
     (if autoIncrement (options os) \<and> generator os \<le> n then n + 1 else generator os)"
| "next_generator os (KStr s) = generator os"

definition store_entry ::
  "IDBTransaction \<Rightarrow> ObjectStoreName \<Rightarrow> object_store \<Rightarrow> key \<Rightarrow> jsval \<Rightarrow> jsval request \<times> IDBTransaction" where
  "store_entry t n os k v =
     (if violates_unique os k v
      then (Fails (Event [] (Some ConstraintError)) (Some ConstraintError), t\<lparr>finished := True\<rparr>)
      else (Succeeds (jsval_of_key k),
            t\<lparr>tx_stores :=
                AList.update n
                  (os\<lparr>entries := AList.update k v (entries os), generator := next_generator os k\<rparr>)
                  (tx_stores t)\<rparr>))"

text \<open>
  \<open>objectStore.put(value, key)\<close> and \<open>objectStore.put(value)\<close> (\<open>None\<close>: no key
  given). A store with a key path takes its key from the value and refuses an explicit
  one; a store without key path and without generator needs an explicit key.
\<close>

definition idb_put ::
  "IDBTransaction \<Rightarrow> ObjectStoreName \<Rightarrow> jsval \<Rightarrow> key option \<Rightarrow> jsval request \<times> IDBTransaction" where
  "idb_put t n v key =
     (case idb_objectStore t n of
        Inl e \<Rightarrow> (Throws e, t)
      | Inr os \<Rightarrow>
          if readonly t then (Throws ReadOnlyError, t)
          else
            (case keyPath (options os) of
               Some kp \<Rightarrow>
                 (case key of
                    Some k \<Rightarrow> (Throws DataError, t)
                  | None \<Rightarrow>
                      (case extract_key v kp of
                         Invalid \<Rightarrow> (Throws DataError, t)
                       | Extracted k \<Rightarrow> store_entry t n os k v
                       | Failure \<Rightarrow>
                           if autoIncrement (options os)
                           then (case v of
                                   JObj ps \<Rightarrow>
                                     store_entry t n os (KNum (generator os))
                                       (JObj (AList.update kp (JNum (generator os)) ps))
                                 | _ \<Rightarrow> (Throws DataError, t))
                           else (Throws DataError, t)))
             | None \<Rightarrow>
                 (case key of
                    Some k \<Rightarrow> store_entry t n os k v
                  | None \<Rightarrow>
                      if autoIncrement (options os)
                      then store_entry t n os (KNum (generator os)) v
                      else (Throws DataError, t))))"

text \<open>\<open>objectStore.delete(key)\<close>: removing an absent key succeeds.\<close>

definition idb_delete ::
  "IDBTransaction \<Rightarrow> ObjectStoreName \<Rightarrow> key \<Rightarrow> unit request \<times> IDBTransaction" where
  "idb_delete t n k =
     (case idb_objectStore t n of
        Inl e \<Rightarrow> (Throws e, t)
      | Inr os \<Rightarrow>
          if readonly t then (Throws ReadOnlyError, t)
          else (Succeeds (),
                t\<lparr>tx_stores :=
                    AList.update n (os\<lparr>entries := AList.delete k (entries os)\<rparr>) (tx_stores t)\<rparr>))"

section \<open>IndexedDbTransaction on the engine\<close>

text \<open>
  The operations of the wrapper on its engine transaction \<open>this._transaction\<close>. get
  goes through the index when \<open>indexName\<close> is truthy; put passes the key on when the
  key is truthy and places \<open>put(value)\<close> otherwise.
\<close>

definition get ::
  "IDBTransaction \<Rightarrow> ObjectStoreName \<Rightarrow> key \<Rightarrow> IndexName option \<Rightarrow> jsval promise" where
  "get t objectStore key indexName =
     get_on objectStore
       (if truthy_name indexName then idb_get t objectStore key indexName
        else idb_get t objectStore key None)"

definition getAsList ::
  "IDBTransaction \<Rightarrow> ObjectStoreName \<Rightarrow> key \<Rightarrow> IndexName option \<Rightarrow> jsval promise" where
  "getAsList t objectStore key indexName =
     then_promise (get t objectStore key indexName)
       (\<lambda>result. if truthy result then result else JArr [])"

definition put ::
  "IDBTransaction \<Rightarrow> ObjectStoreName \<Rightarrow> key option \<Rightarrow> jsval \<Rightarrow> jsval promise \<times> IDBTransaction" where
  "put t objectStore key value =
     (let answer = (if truthy_key key then idb_put t objectStore value key
                    else idb_put t objectStore value None)
      in (put_on objectStore key value (fst answer), snd answer))"

text \<open>The request that put places, with the answer of the engine.\<close>

definition put_request ::
  "IDBTransaction \<Rightarrow> ObjectStoreName \<Rightarrow> key option \<Rightarrow> jsval \<Rightarrow> jsval request \<times> IDBTransaction" where
  "put_request t objectStore key value =
     (if truthy_key key then idb_put t objectStore value key
      else idb_put t objectStore value None)"

definition delete_entry ::
  "IDBTransaction \<Rightarrow> ObjectStoreName \<Rightarrow> key \<Rightarrow> unit promise \<times> IDBTransaction" where
  "delete_entry t objectStore key =
     (let answer = idb_delete t objectStore key
      in (delete_on objectStore (fst answer), snd answer))"

section \<open>The schema and its upgrade\<close>

definition SearchIndexOS :: ObjectStoreName where
  "SearchIndexOS = ''SearchIndex''"

definition SearchIndexMetaDataOS :: ObjectStoreName where
  "SearchIndexMetaDataOS = ''SearchIndexMeta''"

definition ElementDataOS :: ObjectStoreName where
  "ElementDataOS = ''ElementData''"

definition MetaDataOS :: ObjectStoreName where
  "MetaDataOS = ''MetaData''"

definition GroupDataOS :: ObjectStoreName where
  "GroupDataOS = ''GroupMetaData''"

definition SearchTermSuggestionsOS :: ObjectStoreName where
  "SearchTermSuggestionsOS = ''SearchTermSuggestions''"

definition SearchIndexWordsIndex :: IndexName where
  "SearchIndexWordsIndex = ''SearchIndexWords''"

definition DB_VERSION :: int where
  "DB_VERSION = 3"

text \<open>
  What the facade does to the outside, in the order it does it: the calls it places on
  the engine, the user's upgrade callback, the console, the timer.
\<close>

datatype effect =
    CallOnupgrade
  | DeleteObjectStore ObjectStoreName
  | ConsoleLog string
  | CreateObjectStore ObjectStoreName store_options
  | CreateIndex ObjectStoreName IndexName string bool
  | IndexedDBOpen string int
  | Delay nat
  | CloseConnection string
  | IndexedDBDeleteDatabase string

text \<open>The engine during an upgrade: stores are deleted and created by name.\<close>

definition idb_deleteObjectStore :: "stores \<Rightarrow> ObjectStoreName \<Rightarrow> DOMException + stores" where
  "idb_deleteObjectStore ss n =
     (case map_of ss n of None \<Rightarrow> Inl NotFoundError | Some os \<Rightarrow> Inr (AList.delete n ss))"

definition idb_createObjectStore ::
  "stores \<Rightarrow> ObjectStoreName \<Rightarrow> store_options \<Rightarrow> DOMException + stores" where
  "idb_createObjectStore ss n opts =
     (case map_of ss n of
        Some os \<Rightarrow> Inl ConstraintError
      | None \<Rightarrow> Inr (ss @ [(n, \<lparr>options = opts, entries = [], generator = 1, indexes = []\<rparr>)]))"

definition idb_createIndex ::
  "stores \<Rightarrow> ObjectStoreName \<Rightarrow> IndexName \<Rightarrow> string \<Rightarrow> bool \<Rightarrow> DOMException + stores" where
  "idb_createIndex ss n i kp u =
     (case map_of ss n of
        None \<Rightarrow> Inl InvalidStateError
      | Some os \<Rightarrow>
          (case map_of (indexes os) i of
             Some ix \<Rightarrow> Inl ConstraintError
           | None \<Rightarrow>
               Inr (AList.update n
                      (os\<lparr>indexes := indexes os @ [(i, \<lparr>index_keyPath = kp, unique = u\<rparr>)]\<rparr>) ss)))"

text \<open>
  DbFacade._deleteObjectStores: every store in turn; an exception of the engine is
  logged and the loop goes on.
\<close>

fun deleteObjectStores :: "effect list \<times> stores \<Rightarrow> ObjectStoreName list \<Rightarrow> effect list \<times> stores" where
  "deleteObjectStores (log, d) [] = (log, d)"
| "deleteObjectStores (log, d) (os # oss) =
     (case idb_deleteObjectStore d os of
        Inr d' \<Rightarrow> deleteObjectStores (log @ [DeleteObjectStore os], d') oss
      | Inl e \<Rightarrow>
          deleteObjectStores
            (log @ [DeleteObjectStore os,
                    ConsoleLog (''Error while deleting old os '' @ os @ '' ignoring '' @
                                String_error (Some e))], d) oss)"

text \<open>
  The \<open>try\<close> block of the upgrade handler: the six stores and then the index, in the
  order of the source; the first exception ends the block and is handed to the catch
  clause.
\<close>

datatype schema_step =
    NewStore ObjectStoreName store_options
  | NewIndex ObjectStoreName IndexName string bool

definition schema :: "schema_step list" where
  "schema =
     [NewStore SearchIndexOS \<lparr>keyPath = None, autoIncrement = True\<rparr>,
      NewStore SearchIndexMetaDataOS \<lparr>keyPath = Some ''id'', autoIncrement = True\<rparr>,
      NewStore ElementDataOS \<lparr>keyPath = None, autoIncrement = False\<rparr>,
      NewStore MetaDataOS \<lparr>keyPath = None, autoIncrement = False\<rparr>,
      NewStore GroupDataOS \<lparr>keyPath = None, autoIncrement = False\<rparr>,
      NewStore SearchTermSuggestionsOS \<lparr>keyPath = None, autoIncrement = False\<rparr>,
      NewIndex SearchIndexMetaDataOS SearchIndexWordsIndex ''word'' True]"

fun create_schema ::
  "effect list \<times> stores \<Rightarrow> schema_step list \<Rightarrow> effect list \<times> stores \<times> DOMException option" where
  "create_schema (log, d) [] = (log, d, None)"
| "create_schema (log, d) (NewStore n opts # rest) =
     (case idb_createObjectStore d n opts of
        Inl e \<Rightarrow> (log @ [CreateObjectStore n opts], d, Some e)
      | Inr d' \<Rightarrow> create_schema (log @ [CreateObjectStore n opts], d') rest)"
| "create_schema (log, d) (NewIndex n i kp u # rest) =
     (case idb_createIndex d n i kp u of
        Inl e \<Rightarrow> (log @ [CreateIndex n i kp u], d, Some e)
      | Inr d' \<Rightarrow> create_schema (log @ [CreateIndex n i kp u], d') rest)"

text \<open>
  DBOpenRequest.onupgradeneeded, on the stores the database holds: the effects, the
  stores afterwards, and the error the handler passes to the callback of open, if any.
  \<open>onupgrade\<close> tells whether the caller supplied the callback.
\<close>

definition onupgradeneeded ::
  "bool \<Rightarrow> int \<Rightarrow> stores \<Rightarrow> effect list \<times> stores \<times> DbError option" where
  "onupgradeneeded onupgrade oldVersion d =
     (let cleared =
            (if oldVersion \<noteq> DB_VERSION \<and> oldVersion \<noteq> 0
             then deleteObjectStores ((if onupgrade then [CallOnupgrade] else []), d)
                    [SearchIndexOS, ElementDataOS, MetaDataOS, GroupDataOS,
                     SearchTermSuggestionsOS, SearchIndexMetaDataOS]
             else ([], d));
          created = create_schema cleared schema
      in (fst created, fst (snd created),
          map_option
            (\<lambda>e. DbError ''could not create object store searchindex'' (Some (ErrorCause e)))
            (snd (snd created))))"

section \<open>The lazy connection handle\<close>

text \<open>
  Modelled from the spec: the class LazyLoaded, imported from common/utils/LazyLoaded and
  not among the sources. The spec (4.1, 9) describes a state holder (uninitialized,
  pending, resolved value, failed): getAsync invokes the factory only when nothing is
  in flight or cached, isLoaded reports whether a resolved value is currently cached
  (not pending, not reset), getLoaded returns the cached value and is a programming
  error otherwise, reset drops what is cached.
\<close>

datatype 'a LazyLoaded = NotLoaded | Loading | Loaded 'a | LoadFailed rejection

fun isLoaded :: "'a LazyLoaded \<Rightarrow> bool" where
  "isLoaded (Loaded v) = True"
| "isLoaded l = False"

fun getLoaded :: "'a LazyLoaded \<Rightarrow> 'a option" where
  "getLoaded (Loaded v) = Some v"
| "getLoaded l = None"

definition reset :: "'a LazyLoaded \<Rightarrow> 'a LazyLoaded" where
  "reset l = NotLoaded"

text \<open>getAsync: whether the factory is invoked by this call, and the handle afterwards.\<close>

fun getAsync :: "'a LazyLoaded \<Rightarrow> bool \<times> 'a LazyLoaded" where
  "getAsync NotLoaded = (True, Loading)"
| "getAsync l = (False, l)"

text \<open>The promise of the factory settles while the handle waits for it.\<close>

fun settles :: "'a promise \<Rightarrow> 'a LazyLoaded \<Rightarrow> 'a LazyLoaded" where
  "settles (Resolved v) Loading = Loaded v"
| "settles (Rejected e) Loading = LoadFailed e"
| "settles p l = l"

section \<open>DbFacade\<close>

text \<open>
  The fields of the facade, and the two arguments of its constructor that the factory
  of the handle closes over: \<open>supported\<close>, and whether an \<open>onupgrade\<close> callback was
  given. \<open>f_id\<close> is undefined (\<open>None\<close>) until open is called.
\<close>

record DbFacade =
  f_id :: "string option"
  f_db :: "IDBDatabase LazyLoaded"
  f_activeTransactions :: int
  supported :: bool
  onupgrade :: bool

definition new_DbFacade :: "bool \<Rightarrow> bool \<Rightarrow> DbFacade" where
  "new_DbFacade isSupported hasOnupgrade =
     \<lparr>f_id = None, f_db = NotLoaded, f_activeTransactions = 0,
        supported = isSupported, onupgrade = hasOnupgrade\<rparr>"

fun id_string :: "string option \<Rightarrow> string" where
  "id_string None = ''undefined''"
| "id_string (Some s) = s"

text \<open>
  How the engine answers \<open>indexedDB.open(this._id, DB_VERSION)\<close>: the call raises, or
  the request fires upgradeneeded (with the old version, on the stores the database
  holds) or not, and then its error or its success event.
\<close>

datatype open_final = FinalError event "DOMException option" | FinalSuccess

datatype open_response =
    OpenThrows DOMException
  | OpenAnswers "int option" stores open_final

text \<open>
  The factory of the handle, from the answer of the engine to the settled promise of
  the connection. The upgrade handler runs before the final event, so an error it
  passes to the callback settles the promise first.
\<close>

definition open_factory :: "DbFacade \<Rightarrow> open_response \<Rightarrow> effect list \<times> IDBDatabase promise" where
  "open_factory f r =
     (if \<not> supported f then ([], Rejected (Typed (DbError ''indexedDB not supported'' None)))
      else
        (case r of
           OpenThrows e \<Rightarrow>
             ([IndexedDBOpen (id_string (f_id f)) DB_VERSION],
              callback Pending (CbError (Typed (DbError
                (''exception when accessing indexeddb '' @ id_string (f_id f))
                (Some (ErrorCause e))))))
         | OpenAnswers upgrade d final \<Rightarrow>
             (let upgraded =
                    (case upgrade of
                       None \<Rightarrow> ([], d, None)
                     | Some oldVersion \<Rightarrow> onupgradeneeded (onupgrade f) oldVersion d);
                  p = (case snd (snd upgraded) of
                         None \<Rightarrow> Pending
                       | Some err \<Rightarrow> callback Pending (CbError (Typed err)))
              in (IndexedDBOpen (id_string (f_id f)) DB_VERSION # fst upgraded,
                  (case final of
                     FinalError ev err \<Rightarrow>
                       callback p (CbError (Typed (DbError
                         (''DbFacade.open.onerror: '' @ id_string (f_id f) @ nl @
                          ''request.error: '' @ extractErrorProperties (props_of_error err) @ nl @
                          ''event: '' @ extractErrorProperties (ev_props ev) @ nl @
                          ''event.target.error'' @ String_error (ev_target_error ev))
                         (map_option ErrorCause err))))
                   | FinalSuccess \<Rightarrow>
                       callback p (CbValue
                         \<lparr>db_name = id_string (f_id f), db_stores = fst (snd upgraded),
                            closed = False\<rparr>))))))"

text \<open>
  open(id): records the id and asks the handle; the factory starts only when the handle
  holds nothing. The promise it returns settles when the engine has answered.
\<close>

definition open_call :: "string \<Rightarrow> DbFacade \<Rightarrow> bool \<times> DbFacade" where
  "open_call ident f =
     (let asked = getAsync (f_db f)
      in (fst asked, f\<lparr>f_id := Some ident, f_db := snd asked\<rparr>))"

definition open_settles :: "open_response \<Rightarrow> DbFacade \<Rightarrow> effect list \<times> unit promise \<times> DbFacade" where
  "open_settles r f =
     (let answered = open_factory f r
      in (fst answered, then_promise (snd answered) (\<lambda>d. ()),
          f\<lparr>f_db := settles (snd answered) (f_db f)\<rparr>))"

section \<open>IndexedDbTransaction: the settlement\<close>

text \<open>
  The events of an engine transaction. The constructor installs one handler for each;
  all three call the callback of the one promise that wait returns.
\<close>

datatype tx_event = TxError event "DOMException option" | TxComplete | TxAbort

record IndexedDbTransaction =
  t_transaction :: IDBTransaction
  t_promise :: "unit promise"
  aborted :: bool

definition new_IndexedDbTransaction :: "IDBTransaction \<Rightarrow> IndexedDbTransaction" where
  "new_IndexedDbTransaction t = \<lparr>t_transaction = t, t_promise = Pending, aborted = False\<rparr>"

fun message_or_empty :: "DOMException option \<Rightarrow> string" where
  "message_or_empty (Some e) = exn_message e"
| "message_or_empty None = []"

fun transaction_fires :: "tx_event \<Rightarrow> unit promise \<Rightarrow> unit promise" where
  "transaction_fires (TxError ev err) p =
     callback p (CbError (Typed (DbError
       (''IndexedDbTransaction.transaction.onerror, '' @ nl @
        ''event:'' @ extractErrorProperties (ev_props ev) @ nl @
        ''transaction.error'' @ message_or_empty err @ nl @
        ''event.target.error: '' @ message_or_empty (ev_target_error ev))
       (map_option ErrorCause err))))"
| "transaction_fires TxComplete p = callback p (CbValue ())"
| "transaction_fires TxAbort p = callback p (CbValue ())"

text \<open>The engine transaction has finished once it has fired complete or abort.\<close>

fun finishes :: "tx_event \<Rightarrow> IDBTransaction \<Rightarrow> IDBTransaction" where
  "finishes (TxError ev err) t = t"
| "finishes TxComplete t = t\<lparr>finished := True\<rparr>"
| "finishes TxAbort t = t\<lparr>finished := True\<rparr>"

definition wait :: "IndexedDbTransaction \<Rightarrow> unit promise" where
  "wait t = t_promise t"

text \<open>
  abort(): the flag is set, then the engine is asked to abort, which it refuses with an
  exception when the transaction has finished.
\<close>

definition abort :: "IndexedDbTransaction \<Rightarrow> DOMException option \<times> IndexedDbTransaction" where
  "abort t =
     (if finished (t_transaction t) then (Some InvalidStateError, t\<lparr>aborted := True\<rparr>)
      else (None, t\<lparr>aborted := True, t_transaction := (t_transaction t)\<lparr>finished := True\<rparr>\<rparr>))"

section \<open>The facade and its transactions over time\<close>

text \<open>
  The facade together with the transactions createTransaction has handed out, in the
  order of their creation. Everything runs on one event loop, so the state changes in
  steps.
\<close>

record world =
  facade :: DbFacade
  created :: "IndexedDbTransaction list"

definition new_world :: "bool \<Rightarrow> bool \<Rightarrow> world" where
  "new_world isSupported hasOnupgrade =
     \<lparr>facade = new_DbFacade isSupported hasOnupgrade, created = []\<rparr>"

text \<open>
  createTransaction is \<open>this._db.getAsync().then(db => ...)\<close>: \<open>loaded\<close> is the
  promise of the handle. While it is pending nothing happens; a rejection of the
  handle passes through; on a connection the continuation runs: an exception of
  \<open>db.transaction\<close> is caught and wrapped; otherwise the wrapper is built, the counter
  goes up and the decrement is registered on the wrapper's promise (it runs in \<open>step\<close>,
  when that promise settles).
\<close>

definition createTransaction ::
  "IDBDatabase promise \<Rightarrow> bool \<Rightarrow> ObjectStoreName list \<Rightarrow> world
     \<Rightarrow> IndexedDbTransaction promise \<times> world" where
  "createTransaction loaded readOnly objectStores w =
     (case loaded of
        Pending \<Rightarrow> (Pending, w)
      | Rejected e \<Rightarrow> (Rejected e, w)
      | Resolved d \<Rightarrow>
          (case idb_transaction d objectStores readOnly of
             Inl e \<Rightarrow>
               (Rejected (Typed (DbError ''could not create transaction'' (Some (ErrorCause e)))), w)
           | Inr t \<Rightarrow>
               (Resolved (new_IndexedDbTransaction t),
                w\<lparr>facade := (facade w)\<lparr>f_activeTransactions := f_activeTransactions (facade w) + 1\<rparr>,
                   created := created w @ [new_IndexedDbTransaction t]\<rparr>)))"

text \<open>
  What can happen between two calls: a createTransaction runs on a settled handle, the engine
  fires an event on the n-th transaction, a caller puts a value through the n-th
  transaction, a caller aborts the n-th transaction, the engine reports the connection
  closed (the close handler resets the handle).
\<close>

datatype happening =
    CreatesTransaction "IDBDatabase promise" bool "ObjectStoreName list"
  | TransactionFires nat tx_event
  | Puts nat ObjectStoreName "key option" jsval
  | Aborts nat
  | ConnectionCloses

text \<open>
  The handler registered with \<open>transaction.wait().finally(...)\<close> runs when the promise
  goes from pending to settled, and only then.
\<close>

definition finally_runs :: "unit promise \<Rightarrow> unit promise \<Rightarrow> bool" where
  "finally_runs p q = (pending p \<and> \<not> pending q)"

text \<open>
  The engine fires an event on the n-th transaction: the handler of the wrapper settles
  the promise (or leaves it, when it is settled), and the decrement runs when this
  settled it.
\<close>

definition fire :: "nat \<Rightarrow> tx_event \<Rightarrow> world \<Rightarrow> world" where
  "fire n ev w =
     (if n < length (created w)
      then (let t = created w ! n;
                p = transaction_fires ev (t_promise t)
            in w\<lparr>created :=
                   (created w)[n := t\<lparr>t_promise := p,
                                       t_transaction := finishes ev (t_transaction t)\<rparr>],
                 facade :=
                   (if finally_runs (t_promise t) p
                    then (facade w)\<lparr>f_activeTransactions := f_activeTransactions (facade w) - 1\<rparr>
                    else facade w)\<rparr>)
      else w)"

fun fire_all :: "nat \<Rightarrow> tx_event list \<Rightarrow> world \<Rightarrow> world" where
  "fire_all n [] w = w"
| "fire_all n (e # es) w = fire_all n es (fire n e w)"

text \<open>
  What the engine fires on a transaction after the answer to one of its requests. The
  error event of a failed request bubbles to the transaction (no handler of the
  wrapper cancels it), at a moment when \<open>transaction.error\<close> is still null, and its
  default action aborts the transaction, which then fires abort. In this model a
  request is answered in the step that places it.
\<close>

fun bubbles :: "'r request \<Rightarrow> tx_event list" where
  "bubbles (Fails ev err) = [TxError ev None, TxAbort]"
| "bubbles (Throws e) = []"
| "bubbles (Succeeds r) = []"

fun step :: "happening \<Rightarrow> world \<Rightarrow> world" where
  "step (CreatesTransaction loaded readOnly objectStores) w =
     snd (createTransaction loaded readOnly objectStores w)"
| "step (TransactionFires n ev) w = fire n ev w"
| "step (Puts n objectStore key value) w =
     (if n < length (created w)
      then (let t = created w ! n;
                answer = put_request (t_transaction t) objectStore key value
            in fire_all n (bubbles (fst answer))
                 (w\<lparr>created := (created w)[n := t\<lparr>t_transaction := snd answer\<rparr>]\<rparr>))
      else w)"
| "step (Aborts n) w =
     (if n < length (created w)
      then w\<lparr>created := (created w)[n := snd (abort (created w ! n))]\<rparr>
      else w)"
| "step ConnectionCloses w = w\<lparr>facade := (facade w)\<lparr>f_db := reset (f_db (facade w))\<rparr>\<rparr>"

fun run :: "happening list \<Rightarrow> world \<Rightarrow> world" where
  "run [] w = w"
| "run (h # hs) w = run hs (step h w)"

text \<open>How many of the created transactions have not settled.\<close>

definition unsettled :: "world \<Rightarrow> nat" where
  "unsettled w = length (filter (\<lambda>t. pending (wait t)) (created w))"

subsection \<open>deleteDatabase\<close>

text \<open>
  How the engine answers \<open>indexedDB.deleteDatabase(name)\<close>: the call raises, or the
  request fires its error event or its success event.
\<close>

datatype delete_response = DeleteThrows DOMException | DeleteError event | DeleteSuccess

text \<open>
  The branch that deletes: the loaded connection is closed, the delete request is
  placed; on success the handle is reset and the promise resolves, on error the promise
  is rejected and the handle keeps the closed connection. The body handed to
  Promise.fromCallback has no \<open>try\<close> block: when the call raises, the promise is
  rejected with what was raised.
\<close>

definition delete_loaded ::
  "world \<Rightarrow> IDBDatabase \<Rightarrow> delete_response \<Rightarrow> effect list \<times> unit promise \<times> world" where
  "delete_loaded w d r =
     (let f = (facade w)\<lparr>f_db := Loaded (d\<lparr>closed := True\<rparr>)\<rparr>;
          placed = [CloseConnection (db_name d), IndexedDBDeleteDatabase (db_name d)]
      in (case r of
            DeleteThrows e \<Rightarrow> (placed, Rejected (Native e), w\<lparr>facade := f\<rparr>)
          | DeleteError ev \<Rightarrow>
              (placed,
               callback Pending (CbError (Typed (DbError
                 (''could not delete database '' @ db_name d) (Some (EventCause ev))))),
               w\<lparr>facade := f\<rparr>)
          | DeleteSuccess \<Rightarrow>
              (placed, callback Pending (CbValue ()), w\<lparr>facade := f\<lparr>f_db := reset (f_db f)\<rparr>\<rparr>)))"

text \<open>
  deleteDatabase(). The retry \<open>Promise.delay(150).then(() => this.deleteDatabase())\<close>
  calls the method again on the state the facade has after the delay: the schedule
  lists what happens during each delay. When the schedule ends while the call is still
  waiting, its promise is pending. The last alternative of \<open>getLoaded\<close> is not
  reached, since the handle was asked \<open>isLoaded\<close> first.
\<close>

fun deleteDatabase ::
  "world \<Rightarrow> happening list list \<Rightarrow> delete_response \<Rightarrow> effect list \<times> unit promise \<times> world" where
  "deleteDatabase w [] r =
     (if isLoaded (f_db (facade w))
      then (if f_activeTransactions (facade w) > 0
            then ([Delay 150], Pending, w)
            else (case getLoaded (f_db (facade w)) of
                    Some d \<Rightarrow> delete_loaded w d r
                  | None \<Rightarrow> ([], Pending, w)))
      else ([], Resolved (), w))"
| "deleteDatabase w (hs # schedule) r =
     (if isLoaded (f_db (facade w))
      then (if f_activeTransactions (facade w) > 0
            then (case deleteDatabase (run hs w) schedule r of
                    (effects, p, w') \<Rightarrow> (Delay 150 # effects, p, w'))
            else (case getLoaded (f_db (facade w)) of
                    Some d \<Rightarrow> delete_loaded w d r
                  | None \<Rightarrow> ([], Pending, w)))
      else ([], Resolved (), w))"

subsection \<open>Runs\<close>

text \<open>The promise of a transaction after the engine has fired a list of events on it.\<close>

fun fires :: "tx_event list \<Rightarrow> unit promise \<Rightarrow> unit promise" where
  "fires [] p = p"
| "fires (e # es) p = fires es (transaction_fires e p)"


text \<open>
  A call of deleteDatabase waits while the connection is loaded and a transaction is
  active. \<open>waits_during w schedule\<close>: the call on \<open>w\<close> and every retry but the one after
  the last delay of the schedule finds that so; \<open>after w schedule\<close> is the state that
  last retry finds.
\<close>

definition blocked :: "world \<Rightarrow> bool" where
  "blocked w = (isLoaded (f_db (facade w)) \<and> f_activeTransactions (facade w) > 0)"

fun waits_during :: "world \<Rightarrow> happening list list \<Rightarrow> bool" where
  "waits_during w [] = True"
| "waits_during w (hs # schedule) = (blocked w \<and> waits_during (run hs w) schedule)"

fun after :: "world \<Rightarrow> happening list list \<Rightarrow> world" where
  "after w [] = w"
| "after w (hs # schedule) = after (run hs w) schedule"



subsection \<open>What a caller can be handed as a failure\<close>

text \<open>
  A promise is typed when it is not rejected with a native error; it wraps a cause
  when, if rejected, it is rejected with a DbError that carries exactly that cause.
\<close>

fun typed :: "'a promise \<Rightarrow> bool" where
  "typed (Rejected (Native e)) = False"
| "typed p = True"

fun wraps :: "'a promise \<Rightarrow> cause option \<Rightarrow> bool" where
  "wraps (Rejected (Typed e)) c = (cause e = c)"
| "wraps (Rejected (Native e)) c = False"
| "wraps p c = True"

text \<open>The native error behind the answer of the engine to a request.\<close>

fun request_cause :: "'r request \<Rightarrow> cause option" where
  "request_cause (Throws e) = Some (ErrorCause e)"
| "request_cause (Fails ev err) = map_option ErrorCause err"
| "request_cause (Succeeds r) = None"

fun cursor_cause :: "cursor_event list \<Rightarrow> cause option" where
  "cursor_cause [] = None"
| "cursor_cause (CursorAt k v # es) = cursor_cause es"
| "cursor_cause (CursorEnd # es) = None"
| "cursor_cause (CursorError ev err # es) = map_option ErrorCause err"

subsection \<open>The upgrade, spelled out\<close>

text \<open>
  The stores the upgrade handler passes to _deleteObjectStores, in that order; what one
  deletion leaves in the log, given the stores the database holds; the call behind
  each step of the schema.
\<close>

definition known_stores :: "ObjectStoreName list" where
  "known_stores =
     [SearchIndexOS, ElementDataOS, MetaDataOS, GroupDataOS, SearchTermSuggestionsOS,
      SearchIndexMetaDataOS]"

definition deletion_effects :: "stores \<Rightarrow> ObjectStoreName \<Rightarrow> effect list" where
  "deletion_effects d n =
     (if map_of d n = None
      then [DeleteObjectStore n,
            ConsoleLog (''Error while deleting old os '' @ n @ '' ignoring '' @
                        String_error (Some NotFoundError))]
      else [DeleteObjectStore n])"

fun effect_of :: "schema_step \<Rightarrow> effect" where
  "effect_of (NewStore n opts) = CreateObjectStore n opts"
| "effect_of (NewIndex n i kp u) = CreateIndex n i kp u"

subsection \<open>Sequences of puts\<close>

text \<open>
  A sequence of \<open>put(store, key, value)\<close> calls on one transaction, with the promises
  they return; and the value of the last call of a sequence for a store and a key.
\<close>

fun puts ::
  "IDBTransaction \<Rightarrow> (ObjectStoreName \<times> key \<times> jsval) list \<Rightarrow> jsval promise list \<times> IDBTransaction" where
  "puts t [] = ([], t)"
| "puts t ((s, k, v) # calls) =
     (fst (put t s (Some k) v) # fst (puts (snd (put t s (Some k) v)) calls),
      snd (puts (snd (put t s (Some k) v)) calls))"

fun last_put :: "(ObjectStoreName \<times> key \<times> jsval) list \<Rightarrow> ObjectStoreName \<Rightarrow> key \<Rightarrow> jsval option" where
  "last_put [] s k = None"
| "last_put ((s', k', v) # calls) s k =
     (case last_put calls s k of
        Some w \<Rightarrow> Some w
      | None \<Rightarrow> if s' = s \<and> k' = k then Some v else None)"

fun resolved :: "'a promise \<Rightarrow> bool" where
  "resolved (Resolved v) = True"
| "resolved p = False"

section \<open>Examples\<close>

text \<open>
  The stores of a database that was opened for the first time, and a read-write
  transaction over two of them.
\<close>

definition fresh_stores :: stores where
  "fresh_stores = fst (snd (onupgradeneeded False 0 []))"

definition example_transaction :: IDBTransaction where
  "example_transaction =
     \<lparr>scope = [ElementDataOS, SearchIndexMetaDataOS], readonly = False,
        tx_stores = fresh_stores, finished = False\<rparr>"

text \<open>
  A facade whose connection to the fresh database db1 is loaded, and the same with one
  transaction created and active.
\<close>

definition example_database :: IDBDatabase where
  "example_database = \<lparr>db_name = ''db1'', db_stores = fresh_stores, closed = False\<rparr>"

definition example_facade :: DbFacade where
  "example_facade =
     snd (snd (open_settles (OpenAnswers (Some 0) [] FinalSuccess)
                 (snd (open_call ''db1'' (new_DbFacade True False)))))"

definition example_world :: world where
  "example_world =
     step (CreatesTransaction (Resolved example_database) False [ElementDataOS])
       \<lparr>facade = example_facade, created = []\<rparr>"

text \<open>
  The stores of a database of an older version: one known store with an entry, and a
  store the current schema does not know.
\<close>

definition old_stores :: stores where
  "old_stores =
     [(ElementDataOS,
        \<lparr>options = \<lparr>keyPath = None, autoIncrement = False\<rparr>,
           entries = [(KStr ''k1'', JObj [(''a'', JNum 1)])], generator = 1, indexes = []\<rparr>),
      (''Legacy'',
        \<lparr>options = \<lparr>keyPath = None, autoIncrement = True\<rparr>,
           entries = [(KNum 1, JStr ''x'')], generator = 2, indexes = []\<rparr>)]"


definition metadata_world :: world where
  "metadata_world =
     step (CreatesTransaction (Resolved example_database) False [SearchIndexMetaDataOS])
       \<lparr>facade = example_facade, created = []\<rparr>"

definition example_word :: jsval where
  "example_word = JObj [(''word'', JStr ''w'')]"

text \<open>Three puts on the example transaction, two of them for the same key.\<close>

definition example_puts :: "(ObjectStoreName \<times> key \<times> jsval) list" where
  "example_puts =
     [(ElementDataOS, KStr ''k1'', JNum 1),
      (ElementDataOS, KStr ''k2'', JNum 5),
      (ElementDataOS, KStr ''k1'', JNum 2)]"

section \<open>Properties\<close>

lemmas names_defs =
  SearchIndexOS_def SearchIndexMetaDataOS_def ElementDataOS_def MetaDataOS_def
  GroupDataOS_def SearchTermSuggestionsOS_def SearchIndexWordsIndex_def

lemma fresh_stores_eq:
  "fresh_stores =
   [(''SearchIndex'',
      \<lparr>options = \<lparr>keyPath = None, autoIncrement = True\<rparr>, entries = [], generator = 1,
         indexes = []\<rparr>),
    (''SearchIndexMeta'',
      \<lparr>options = \<lparr>keyPath = Some ''id'', autoIncrement = True\<rparr>, entries = [], generator = 1,
         indexes = [(''SearchIndexWords'', \<lparr>index_keyPath = ''word'', unique = True\<rparr>)]\<rparr>),
    (''ElementData'',
      \<lparr>options = \<lparr>keyPath = None, autoIncrement = False\<rparr>, entries = [], generator = 1,
         indexes = []\<rparr>),
    (''MetaData'',
      \<lparr>options = \<lparr>keyPath = None, autoIncrement = False\<rparr>, entries = [], generator = 1,
         indexes = []\<rparr>),
    (''GroupMetaData'',
      \<lparr>options = \<lparr>keyPath = None, autoIncrement = False\<rparr>, entries = [], generator = 1,
         indexes = []\<rparr>),
    (''SearchTermSuggestions'',
      \<lparr>options = \<lparr>keyPath = None, autoIncrement = False\<rparr>, entries = [], generator = 1,
         indexes = []\<rparr>)]"
  by (simp add: fresh_stores_def onupgradeneeded_def schema_def names_defs DB_VERSION_def
      idb_createObjectStore_def idb_createIndex_def)

subsection \<open>Lookups that find nothing, or a falsy value\<close>

lemma get_of_lookup:
  "get t objectStore key indexName =
     (case idb_lookup t objectStore key (if truthy_name indexName then indexName else None) of
        Inl e \<Rightarrow> get_on objectStore (Throws e)
      | Inr None \<Rightarrow> Resolved Undefined
      | Inr (Some v) \<Rightarrow> Resolved v)"
  by (simp add: get_def idb_get_def get_on_def split: sum.splits option.splits)

lemma example_lookup_by_key:
  "idb_lookup example_transaction ElementDataOS (KStr ''k1'') None = Inr None"
  by (simp add: idb_lookup_def idb_objectStore_def example_transaction_def fresh_stores_eq
      names_defs)

lemma example_lookup_by_index:
  "idb_lookup example_transaction SearchIndexMetaDataOS (KStr ''word1'')
     (Some SearchIndexWordsIndex) = Inr None"
  by (simp add: idb_lookup_def idb_objectStore_def example_transaction_def fresh_stores_eq
      names_defs idb_index_find_def)

text \<open>
  C6. When the store (and the index, if one is named) holds no entry for the key, that
  is, the lookup the call places reaches the store and finds nothing, getAsList
  resolves with the empty array and get resolves with undefined; neither rejects.
\<close>

theorem getAsList_absent:
  assumes "idb_lookup t objectStore key (if truthy_name indexName then indexName else None)
             = Inr None"
  shows "getAsList t objectStore key indexName = Resolved (JArr [])
         \<and> get t objectStore key indexName = Resolved Undefined"
  using assms by (simp add: getAsList_def get_of_lookup)

theorem getAsList_absent_witness:
  "idb_lookup example_transaction ElementDataOS (KStr ''k1'') None = Inr None
   \<and> getAsList example_transaction ElementDataOS (KStr ''k1'') None = Resolved (JArr [])
   \<and> get example_transaction ElementDataOS (KStr ''k1'') None = Resolved Undefined
   \<and> idb_lookup example_transaction SearchIndexMetaDataOS (KStr ''word1'')
        (Some SearchIndexWordsIndex) = Inr None
   \<and> getAsList example_transaction SearchIndexMetaDataOS (KStr ''word1'')
        (Some SearchIndexWordsIndex) = Resolved (JArr [])"
  using getAsList_absent [of example_transaction ElementDataOS "KStr ''k1''" None]
    getAsList_absent [of example_transaction SearchIndexMetaDataOS "KStr ''word1''"
      "Some SearchIndexWordsIndex"]
    example_lookup_by_key example_lookup_by_index
  by (simp add: SearchIndexWordsIndex_def)

lemma example_lookup_zero:
  "idb_lookup (snd (put example_transaction ElementDataOS (Some (KStr ''k1'')) (JNum 0)))
     ElementDataOS (KStr ''k1'') None = Inr (Some (JNum 0))"
  by (simp add: put_def idb_put_def store_entry_def violates_unique_def idb_lookup_def
      idb_objectStore_def example_transaction_def fresh_stores_eq names_defs)

text \<open>
  C9. When the lookup finds a stored value that is falsy (0, the empty string, false,
  null, undefined), getAsList resolves with the empty array, which is also its result
  on any transaction where the same lookup finds nothing.
\<close>

theorem getAsList_falsy:
  assumes "idb_lookup t objectStore key (if truthy_name indexName then indexName else None)
             = Inr (Some v)"
    and "\<not> truthy v"
  shows "getAsList t objectStore key indexName = Resolved (JArr [])
         \<and> (idb_lookup t' objectStore key (if truthy_name indexName then indexName else None)
               = Inr None
              \<longrightarrow> getAsList t' objectStore key indexName = getAsList t objectStore key indexName)"
  using assms by (simp add: getAsList_def get_of_lookup)

theorem getAsList_falsy_witness:
  "idb_lookup (snd (put example_transaction ElementDataOS (Some (KStr ''k1'')) (JNum 0)))
     ElementDataOS (KStr ''k1'') None = Inr (Some (JNum 0))
   \<and> \<not> truthy (JNum 0)
   \<and> getAsList (snd (put example_transaction ElementDataOS (Some (KStr ''k1'')) (JNum 0)))
        ElementDataOS (KStr ''k1'') None = Resolved (JArr [])
   \<and> getAsList example_transaction ElementDataOS (KStr ''k1'') None
      = getAsList (snd (put example_transaction ElementDataOS (Some (KStr ''k1'')) (JNum 0)))
          ElementDataOS (KStr ''k1'') None"
  using getAsList_falsy
      [of "snd (put example_transaction ElementDataOS (Some (KStr ''k1'')) (JNum 0))"
        ElementDataOS "KStr ''k1''" None "JNum 0" example_transaction]
    example_lookup_zero example_lookup_by_key
  by simp

subsection \<open>deleteDatabase\<close>

lemma fresh_upgrade_succeeds: "snd (snd (onupgradeneeded False 0 [])) = None"
  by (simp add: onupgradeneeded_def schema_def names_defs DB_VERSION_def
      idb_createObjectStore_def idb_createIndex_def)

lemma example_facade_eq:
  "example_facade =
     \<lparr>f_id = Some ''db1'', f_db = Loaded example_database, f_activeTransactions = 0,
        supported = True, onupgrade = False\<rparr>"
  by (simp add: example_facade_def open_settles_def open_call_def new_DbFacade_def open_factory_def
      example_database_def fresh_stores_def Let_def fresh_upgrade_succeeds)

lemma example_transaction_start:
  "idb_transaction example_database [ElementDataOS] False =
     Inr \<lparr>scope = [ElementDataOS], readonly = False, tx_stores = fresh_stores, finished = False\<rparr>"
  by (simp add: idb_transaction_def example_database_def fresh_stores_eq names_defs)

lemma example_world_eq:
  "example_world =
     \<lparr>facade = example_facade\<lparr>f_activeTransactions := 1\<rparr>,
        created = [new_IndexedDbTransaction
           \<lparr>scope = [ElementDataOS], readonly = False, tx_stores = fresh_stores, finished = False\<rparr>]\<rparr>"
  by (simp add: example_world_def createTransaction_def example_transaction_start example_facade_eq)

lemma deleteDatabase_not_loaded:
  "\<not> isLoaded (f_db (facade w)) \<Longrightarrow> deleteDatabase w schedule r = ([], Resolved (), w)"
  by (cases schedule) simp_all

lemma deleteDatabase_waiting:
  "waits_during w schedule \<Longrightarrow> blocked (after w schedule) \<Longrightarrow>
   deleteDatabase w schedule r = (replicate (Suc (length schedule)) (Delay 150), Pending, after w schedule)"
  by (induction schedule arbitrary: w) (simp_all add: blocked_def)

lemma deleteDatabase_ready:
  "f_db (facade w) = Loaded d \<Longrightarrow> \<not> f_activeTransactions (facade w) > 0 \<Longrightarrow>
   deleteDatabase w schedule r = delete_loaded w d r"
  by (cases schedule) simp_all

lemma deleteDatabase_eventually:
  "waits_during w pre \<Longrightarrow> f_db (facade (after w pre)) = Loaded d \<Longrightarrow>
   \<not> f_activeTransactions (facade (after w pre)) > 0 \<Longrightarrow>
   deleteDatabase w (pre @ rest) r =
     (replicate (length pre) (Delay 150) @ fst (delete_loaded (after w pre) d r),
      snd (delete_loaded (after w pre) d r))"
  by (induction pre arbitrary: w) (simp_all add: blocked_def deleteDatabase_ready split: prod.splits)


lemma nothing_happens:
  "blocked w \<Longrightarrow> waits_during w (replicate n []) \<and> after w (replicate n []) = w"
  by (induction n) simp_all

text \<open>
  C1. A call of deleteDatabase on a facade whose handle holds no loaded connection
  (never opened, in particular) resolves at once: no effect, no change. While the
  connection is loaded and the counter of active transactions is positive, the call
  and each retry place nothing on the engine but a delay of 150 ms, for as long as
  the schedule lasts, with the promise still pending. Once a retry finds the connection
  loaded and the counter at zero, the connection is closed and the delete request is
  placed; on its success the promise resolves and the handle is reset, so that the
  next open invokes the factory again. In particular, when nothing happens during the
  delays, a call that waits is still waiting after any number of retries.
\<close>

theorem deleteDatabase_behaviour:
  "(\<not> isLoaded (f_db (facade w)) \<longrightarrow> deleteDatabase w schedule r = ([], Resolved (), w))
   \<and> (waits_during w schedule \<and> blocked (after w schedule) \<longrightarrow>
        deleteDatabase w schedule r =
          (replicate (Suc (length schedule)) (Delay 150), Pending, after w schedule))
   \<and> (blocked w \<longrightarrow>
        deleteDatabase w (replicate retries []) r =
          (replicate (Suc retries) (Delay 150), Pending, w))
   \<and> (waits_during w schedule \<and> f_db (facade (after w schedule)) = Loaded d
        \<and> f_activeTransactions (facade (after w schedule)) = 0 \<longrightarrow>
        deleteDatabase w (schedule @ rest) DeleteSuccess =
          (replicate (length schedule) (Delay 150) @
             [CloseConnection (db_name d), IndexedDBDeleteDatabase (db_name d)],
           Resolved (),
           (after w schedule)\<lparr>facade := (facade (after w schedule))\<lparr>f_db := NotLoaded\<rparr>\<rparr>)
        \<and> open_call ident (facade (snd (snd (deleteDatabase w (schedule @ rest) DeleteSuccess)))) =
            (True, (facade (after w schedule))\<lparr>f_id := Some ident, f_db := Loading\<rparr>))"
proof (intro conjI impI)
  assume "\<not> isLoaded (f_db (facade w))"
  then show "deleteDatabase w schedule r = ([], Resolved (), w)"
    by (rule deleteDatabase_not_loaded)
next
  assume "waits_during w schedule \<and> blocked (after w schedule)"
  then show "deleteDatabase w schedule r =
      (replicate (Suc (length schedule)) (Delay 150), Pending, after w schedule)"
    by (simp add: deleteDatabase_waiting)
next
  assume "blocked w"
  then show "deleteDatabase w (replicate retries []) r =
      (replicate (Suc retries) (Delay 150), Pending, w)"
    using deleteDatabase_waiting [of w "replicate retries []" r]
    by (simp add: nothing_happens)
next
  assume a: "waits_during w schedule \<and> f_db (facade (after w schedule)) = Loaded d
        \<and> f_activeTransactions (facade (after w schedule)) = 0"
  then have "deleteDatabase w (schedule @ rest) DeleteSuccess =
     (replicate (length schedule) (Delay 150) @ fst (delete_loaded (after w schedule) d DeleteSuccess),
      snd (delete_loaded (after w schedule) d DeleteSuccess))"
    by (intro deleteDatabase_eventually) simp_all
  then show b: "deleteDatabase w (schedule @ rest) DeleteSuccess =
          (replicate (length schedule) (Delay 150) @
             [CloseConnection (db_name d), IndexedDBDeleteDatabase (db_name d)],
           Resolved (),
           (after w schedule)\<lparr>facade := (facade (after w schedule))\<lparr>f_db := NotLoaded\<rparr>\<rparr>)"
    by (simp add: delete_loaded_def reset_def)
  show "open_call ident (facade (snd (snd (deleteDatabase w (schedule @ rest) DeleteSuccess)))) =
            (True, (facade (after w schedule))\<lparr>f_id := Some ident, f_db := Loading\<rparr>)"
    by (simp add: b open_call_def)
qed

lemma example_world_blocked: "blocked example_world"
  by (simp add: blocked_def example_world_eq example_facade_eq)

lemma example_world_completes:
  "run [TransactionFires 0 TxComplete] example_world =
     \<lparr>facade = example_facade,
        created = [(new_IndexedDbTransaction
           \<lparr>scope = [ElementDataOS], readonly = False, tx_stores = fresh_stores, finished = True\<rparr>)
             \<lparr>t_promise := Resolved ()\<rparr>]\<rparr>"
  by (simp add: example_world_eq example_facade_eq new_IndexedDbTransaction_def finally_runs_def
      fire_def)

theorem deleteDatabase_behaviour_witness:
  "\<not> isLoaded (f_db (facade (new_world True False)))
   \<and> deleteDatabase (new_world True False) [[]] DeleteSuccess = ([], Resolved (), new_world True False)
   \<and> waits_during example_world [[]] \<and> blocked (after example_world [[]])
   \<and> deleteDatabase example_world [[]] DeleteSuccess = ([Delay 150, Delay 150], Pending, example_world)
   \<and> blocked example_world
   \<and> deleteDatabase example_world (replicate 3 []) (DeleteError (Event [] None))
       = (replicate (Suc 3) (Delay 150), Pending, example_world)
   \<and> waits_during example_world [[], [TransactionFires 0 TxComplete]]
   \<and> f_db (facade (after example_world [[], [TransactionFires 0 TxComplete]])) = Loaded example_database
   \<and> f_activeTransactions (facade (after example_world [[], [TransactionFires 0 TxComplete]])) = 0
   \<and> fst (deleteDatabase example_world ([[], [TransactionFires 0 TxComplete]] @ [[]]) DeleteSuccess) =
        [Delay 150, Delay 150, CloseConnection ''db1'', IndexedDBDeleteDatabase ''db1'']
   \<and> fst (snd (deleteDatabase example_world ([[], [TransactionFires 0 TxComplete]] @ [[]]) DeleteSuccess)) =
        Resolved ()
   \<and> fst (open_call ''db1'' (facade (snd (snd
        (deleteDatabase example_world ([[], [TransactionFires 0 TxComplete]] @ [[]]) DeleteSuccess)))))"
proof -
  have a: "\<not> isLoaded (f_db (facade (new_world True False)))"
    by (simp add: new_world_def new_DbFacade_def)
  have b: "waits_during example_world [[]] \<and> blocked (after example_world [[]])"
    by (simp add: example_world_blocked)
  have c: "waits_during example_world [[], [TransactionFires 0 TxComplete]]
     \<and> f_db (facade (after example_world [[], [TransactionFires 0 TxComplete]])) = Loaded example_database
     \<and> f_activeTransactions (facade (after example_world [[], [TransactionFires 0 TxComplete]])) = 0"
    using example_world_completes by (simp add: example_world_blocked example_facade_eq)
  have t1: "deleteDatabase (new_world True False) [[]] DeleteSuccess
      = ([], Resolved (), new_world True False)"
    using deleteDatabase_behaviour [where w = "new_world True False" and schedule = "[[]]"
        and r = DeleteSuccess] a
    by blast
  have t2: "deleteDatabase example_world [[]] DeleteSuccess =
      (replicate (Suc (length [[]::happening list])) (Delay 150), Pending, after example_world [[]])"
    using deleteDatabase_behaviour [where w = example_world and schedule = "[[]]"
        and r = DeleteSuccess] b
    by blast
  have t3: "deleteDatabase example_world ([[], [TransactionFires 0 TxComplete]] @ [[]]) DeleteSuccess =
      (replicate (length [[], [TransactionFires 0 TxComplete]]) (Delay 150) @
         [CloseConnection (db_name example_database), IndexedDBDeleteDatabase (db_name example_database)],
       Resolved (),
       (after example_world [[], [TransactionFires 0 TxComplete]])
         \<lparr>facade := (facade (after example_world [[], [TransactionFires 0 TxComplete]]))
            \<lparr>f_db := NotLoaded\<rparr>\<rparr>)
     \<and> open_call ''db1'' (facade (snd (snd
          (deleteDatabase example_world ([[], [TransactionFires 0 TxComplete]] @ [[]]) DeleteSuccess)))) =
        (True, (facade (after example_world [[], [TransactionFires 0 TxComplete]]))
                 \<lparr>f_id := Some ''db1'', f_db := Loading\<rparr>)"
    using deleteDatabase_behaviour [where w = example_world
        and schedule = "[[], [TransactionFires 0 TxComplete]]" and d = example_database
        and rest = "[[]]" and ident = "''db1''"] c
    by blast
  have t4: "deleteDatabase example_world (replicate 3 []) (DeleteError (Event [] None))
       = (replicate (Suc 3) (Delay 150), Pending, example_world)"
    using deleteDatabase_behaviour [where w = example_world and retries = 3
        and r = "DeleteError (Event [] None)"] example_world_blocked
    by blast
  have names: "db_name example_database = ''db1''"
    by (simp add: example_database_def)
  note t3n = t3 [simplified append.simps list.size replicate.simps One_nat_def add_Suc_right
      add_0_right names]
  show ?thesis
    using a b c t1 example_world_blocked
    apply (simp only: t2 t3n t4 fst_conv snd_conv list.size replicate.simps append.simps
          after.simps run.simps One_nat_def add_Suc_right add_0_right simp_thms)
    apply (simp add: open_call_def del: step.simps)
    done
qed

text \<open>
  C10. While the handle is still loading (open was called, the connection has not
  resolved), deleteDatabase resolves at once: it places no delay, closes nothing,
  issues no delete and leaves the state as it is.
\<close>

theorem deleteDatabase_while_opening:
  assumes "f_db (facade w) = Loading"
  shows "deleteDatabase w schedule r = ([], Resolved (), w)"
  using assms by (simp add: deleteDatabase_not_loaded)

theorem deleteDatabase_while_opening_witness:
  "f_db (facade \<lparr>facade = snd (open_call ''db1'' (new_DbFacade True False)), created = []\<rparr>) = Loading
   \<and> deleteDatabase \<lparr>facade = snd (open_call ''db1'' (new_DbFacade True False)), created = []\<rparr>
        [[]] DeleteSuccess
      = ([], Resolved (), \<lparr>facade = snd (open_call ''db1'' (new_DbFacade True False)), created = []\<rparr>)"
proof -
  have "f_db (facade \<lparr>facade = snd (open_call ''db1'' (new_DbFacade True False)), created = []\<rparr>) = Loading"
    by (simp add: open_call_def new_DbFacade_def)
  then show ?thesis
    using deleteDatabase_while_opening
      [of "\<lparr>facade = snd (open_call ''db1'' (new_DbFacade True False)), created = []\<rparr>" "[[]]" DeleteSuccess]
    by simp
qed

subsection \<open>The settlement of a transaction\<close>

lemma callback_settled: "\<not> pending p \<Longrightarrow> callback p a = p"
  by (cases p; cases a) simp_all

lemma transaction_fires_settled: "\<not> pending p \<Longrightarrow> transaction_fires e p = p"
  by (cases e) (simp_all add: callback_settled)

lemma transaction_fires_settles: "\<not> pending (transaction_fires e Pending)"
  by (cases e) simp_all

lemma fires_settled: "\<not> pending p \<Longrightarrow> fires es p = p"
  by (induction es arbitrary: p) (simp_all add: transaction_fires_settled)

lemma fires_first: "fires (e # es) Pending = transaction_fires e Pending"
  by (simp add: fires_settled transaction_fires_settles)











subsection \<open>The counter of active transactions\<close>

lemma filter_list_update:
  "n < length xs \<Longrightarrow>
   length (filter P (xs[n := y])) + (if P (xs ! n) then 1 else 0)
     = length (filter P xs) + (if P y then 1 else 0)"
proof (induction xs arbitrary: n)
  case Nil
  then show ?case by simp
next
  case (Cons x xs)
  then show ?case by (cases n) auto
qed

lemma createTransaction_cases:
  "createTransaction loaded ro names w = (Pending, w)
   \<or> (\<exists>e. createTransaction loaded ro names w = (Rejected e, w))
   \<or> (\<exists>t. createTransaction loaded ro names w =
         (Resolved (new_IndexedDbTransaction t),
          w\<lparr>facade := (facade w)\<lparr>f_activeTransactions := f_activeTransactions (facade w) + 1\<rparr>,
             created := created w @ [new_IndexedDbTransaction t]\<rparr>))"
  by (auto simp: createTransaction_def split: sum.splits promise.splits)

lemma unsettled_fires:
  assumes "n < length (created w)"
  shows "int (unsettled (step (TransactionFires n ev) w))
         = int (unsettled w) - (if pending (wait (created w ! n)) then 1 else 0)"
proof -
  let ?t = "created w ! n"
  let ?p = "transaction_fires ev (t_promise ?t)"
  let ?t' = "?t\<lparr>t_promise := ?p, t_transaction := finishes ev (t_transaction ?t)\<rparr>"
  have np: "\<not> pending (wait ?t')"
    by (cases "t_promise ?t") (simp_all add: wait_def transaction_fires_settles transaction_fires_settled)
  from filter_list_update [OF assms, of "\<lambda>t. pending (wait t)" ?t'] np
  show ?thesis
    using assms by (simp add: unsettled_def Let_def fire_def split: if_splits)
qed

lemma counter_fires:
  assumes "n < length (created w)"
  shows "f_activeTransactions (facade (step (TransactionFires n ev) w))
         = f_activeTransactions (facade w) - (if pending (wait (created w ! n)) then 1 else 0)"
  using assms
  by (cases "t_promise (created w ! n)")
     (simp_all add: Let_def finally_runs_def wait_def transaction_fires_settles
        transaction_fires_settled fire_def)

lemma fire_keeps_count:
  assumes "f_activeTransactions (facade w) = int (unsettled w)"
  shows "f_activeTransactions (facade (fire n ev w)) = int (unsettled (fire n ev w))"
proof (cases "n < length (created w)")
  case True
  with assms show ?thesis
    using unsettled_fires [OF True, of ev] counter_fires [OF True, of ev] by simp
next
  case False
  with assms show ?thesis by (simp add: fire_def)
qed

lemma fire_all_keeps_count:
  "f_activeTransactions (facade w) = int (unsettled w) \<Longrightarrow>
   f_activeTransactions (facade (fire_all n es w)) = int (unsettled (fire_all n es w))"
  by (induction es arbitrary: w) (simp_all add: fire_keeps_count)

lemma unsettled_request:
  "unsettled (w\<lparr>created := (created w)[n := (created w ! n)\<lparr>t_transaction := t\<rparr>]\<rparr>) = unsettled w"
proof (cases "n < length (created w)")
  case True
  have "pending (wait ((created w ! n)\<lparr>t_transaction := t\<rparr>)) = pending (wait (created w ! n))"
    by (simp add: wait_def)
  with filter_list_update [OF True, of "\<lambda>t. pending (wait t)" "(created w ! n)\<lparr>t_transaction := t\<rparr>"]
  show ?thesis by (simp add: unsettled_def)
next
  case False
  then show ?thesis by (simp add: unsettled_def list_update_beyond)
qed

lemma unsettled_aborts: "unsettled (step (Aborts n) w) = unsettled w"
proof (cases "n < length (created w)")
  case True
  have "pending (wait (snd (abort (created w ! n)))) = pending (wait (created w ! n))"
    by (simp add: abort_def wait_def)
  with filter_list_update [OF True, of "\<lambda>t. pending (wait t)" "snd (abort (created w ! n))"]
  show ?thesis using True by (simp add: unsettled_def)
next
  case False
  then show ?thesis by simp
qed

lemma step_keeps_count:
  assumes "f_activeTransactions (facade w) = int (unsettled w)"
  shows "f_activeTransactions (facade (step h w)) = int (unsettled (step h w))"
proof (cases h)
  case (CreatesTransaction loaded ro names)
  from createTransaction_cases [of loaded ro names w] show ?thesis
  proof (elim disjE)
    assume "createTransaction loaded ro names w = (Pending, w)"
    with assms CreatesTransaction show ?thesis by auto
  next
    assume "\<exists>e. createTransaction loaded ro names w = (Rejected e, w)"
    with assms CreatesTransaction show ?thesis by auto
  next
    assume "\<exists>t. createTransaction loaded ro names w =
         (Resolved (new_IndexedDbTransaction t),
          w\<lparr>facade := (facade w)\<lparr>f_activeTransactions := f_activeTransactions (facade w) + 1\<rparr>,
             created := created w @ [new_IndexedDbTransaction t]\<rparr>)"
    with assms CreatesTransaction show ?thesis
      by (auto simp: unsettled_def wait_def new_IndexedDbTransaction_def)
  qed
next
  case (TransactionFires n ev)
  with fire_keeps_count [OF assms] show ?thesis by simp
next
  case (Puts n objectStore key v)
  show ?thesis
  proof (cases "n < length (created w)")
    case True
    let ?answer = "put_request (t_transaction (created w ! n)) objectStore key v"
    let ?w = "w\<lparr>created := (created w)[n := (created w ! n)\<lparr>t_transaction := snd ?answer\<rparr>]\<rparr>"
    from assms have "f_activeTransactions (facade ?w) = int (unsettled ?w)"
      by (simp add: unsettled_request)
    then have "f_activeTransactions (facade (fire_all n (bubbles (fst ?answer)) ?w))
        = int (unsettled (fire_all n (bubbles (fst ?answer)) ?w))"
      by (rule fire_all_keeps_count)
    with True Puts show ?thesis by (simp add: Let_def)
  next
    case False
    with assms Puts show ?thesis by simp
  qed
next
  case (Aborts n)
  have "facade (step (Aborts n) w) = facade w" by simp
  with assms Aborts unsettled_aborts [of n w] show ?thesis by simp
next
  case ConnectionCloses
  with assms show ?thesis by (simp add: unsettled_def)
qed

lemma run_keeps_count:
  "f_activeTransactions (facade w) = int (unsettled w) \<Longrightarrow>
   f_activeTransactions (facade (run hs w)) = int (unsettled (run hs w))"
proof (induction hs arbitrary: w)
  case Nil
  then show ?case by simp
next
  case (Cons h hs)
  from Cons.prems have "f_activeTransactions (facade (step h w)) = int (unsettled (step h w))"
    by (rule step_keeps_count)
  then show ?case using Cons.IH by simp
qed


text \<open>
  C2. A createTransaction that builds a transaction raises the counter by one and
  hands out a transaction whose promise is pending; one that is rejected (the handle
  failed, or the engine refused to start the transaction) leaves the state as it was.
  The first event on a pending transaction (complete, abort or error) lowers the
  counter by one and settles the transaction; an event on a settled transaction leaves
  the counter alone. From the constructor on, after any sequence of happenings, the
  counter is the number of created transactions that have not settled.
\<close>

theorem activeTransactions_counts:
  "(createTransaction loaded ro names w = (Resolved tx, w') \<longrightarrow>
       f_activeTransactions (facade w') = f_activeTransactions (facade w) + 1
       \<and> created w' = created w @ [tx] \<and> pending (wait tx))
   \<and> (createTransaction loaded ro names w = (Rejected e, w') \<longrightarrow> w' = w)
   \<and> (n < length (created w) \<and> pending (wait (created w ! n)) \<longrightarrow>
       f_activeTransactions (facade (step (TransactionFires n ev) w))
         = f_activeTransactions (facade w) - 1
       \<and> \<not> pending (wait (created (step (TransactionFires n ev) w) ! n)))
   \<and> (n < length (created w) \<and> \<not> pending (wait (created w ! n)) \<longrightarrow>
       f_activeTransactions (facade (step (TransactionFires n ev) w))
         = f_activeTransactions (facade w))
   \<and> f_activeTransactions (facade (run hs (new_world isSupported hasOnupgrade)))
       = int (unsettled (run hs (new_world isSupported hasOnupgrade)))"
proof -
  have p1: "createTransaction loaded ro names w = (Resolved tx, w') \<longrightarrow>
       f_activeTransactions (facade w') = f_activeTransactions (facade w) + 1
       \<and> created w' = created w @ [tx] \<and> pending (wait tx)"
    using createTransaction_cases [of loaded ro names w]
    by (auto simp: wait_def new_IndexedDbTransaction_def)
  have p2: "createTransaction loaded ro names w = (Rejected e, w') \<longrightarrow> w' = w"
    using createTransaction_cases [of loaded ro names w] by auto
  have p3: "n < length (created w) \<and> pending (wait (created w ! n)) \<longrightarrow>
       f_activeTransactions (facade (step (TransactionFires n ev) w))
         = f_activeTransactions (facade w) - 1
       \<and> \<not> pending (wait (created (step (TransactionFires n ev) w) ! n))"
  proof
    assume a: "n < length (created w) \<and> pending (wait (created w ! n))"
    then have "f_activeTransactions (facade (step (TransactionFires n ev) w))
         = f_activeTransactions (facade w) - 1"
      by (simp add: counter_fires del: step.simps)
    moreover from a have "\<not> pending (wait (created (step (TransactionFires n ev) w) ! n))"
      by (cases "t_promise (created w ! n)")
         (simp_all add: wait_def Let_def transaction_fires_settles fire_def)
    ultimately show "f_activeTransactions (facade (step (TransactionFires n ev) w))
         = f_activeTransactions (facade w) - 1
       \<and> \<not> pending (wait (created (step (TransactionFires n ev) w) ! n))"
      by simp
  qed
  have p4: "n < length (created w) \<and> \<not> pending (wait (created w ! n)) \<longrightarrow>
       f_activeTransactions (facade (step (TransactionFires n ev) w))
         = f_activeTransactions (facade w)"
    by (simp add: counter_fires del: step.simps)
  have "f_activeTransactions (facade (new_world isSupported hasOnupgrade))
        = int (unsettled (new_world isSupported hasOnupgrade))"
    by (simp add: new_world_def new_DbFacade_def unsettled_def)
  then have p5: "f_activeTransactions (facade (run hs (new_world isSupported hasOnupgrade)))
       = int (unsettled (run hs (new_world isSupported hasOnupgrade)))"
    by (rule run_keeps_count)
  from p1 p2 p3 p4 p5 show ?thesis
    by blast
qed


lemma example_refused:
  "createTransaction (Resolved example_database) False [''Unknown''] example_world =
     (Rejected (Typed (DbError ''could not create transaction'' (Some (ErrorCause NotFoundError)))),
      example_world)"
  by (simp add: createTransaction_def idb_transaction_def example_database_def fresh_stores_eq)

theorem activeTransactions_counts_witness:
  "createTransaction (Resolved example_database) False [ElementDataOS]
      \<lparr>facade = example_facade, created = []\<rparr>
     = (Resolved (new_IndexedDbTransaction
          \<lparr>scope = [ElementDataOS], readonly = False, tx_stores = fresh_stores, finished = False\<rparr>),
        example_world)
   \<and> f_activeTransactions (facade example_world) = 0 + 1
   \<and> createTransaction (Resolved example_database) False [''Unknown''] example_world =
       (Rejected (Typed (DbError ''could not create transaction'' (Some (ErrorCause NotFoundError)))),
        example_world)
   \<and> 0 < length (created example_world) \<and> pending (wait (created example_world ! 0))
   \<and> f_activeTransactions (facade (step (TransactionFires 0 TxAbort) example_world)) = 1 - 1
   \<and> \<not> pending (wait (created (step (TransactionFires 0 TxAbort) example_world) ! 0))
   \<and> f_activeTransactions (facade (step (TransactionFires 0 TxComplete)
         (step (TransactionFires 0 TxAbort) example_world))) = 0
   \<and> f_activeTransactions (facade (run [CreatesTransaction (Resolved example_database) False [ElementDataOS],
          TransactionFires 0 (TxError (Event [] None) None), TransactionFires 0 TxAbort]
          (new_world True False)))
      = int (unsettled (run [CreatesTransaction (Resolved example_database) False [ElementDataOS],
          TransactionFires 0 (TxError (Event [] None) None), TransactionFires 0 TxAbort]
          (new_world True False)))"
proof -
  let ?t = "new_IndexedDbTransaction
          \<lparr>scope = [ElementDataOS], readonly = False, tx_stores = fresh_stores, finished = False\<rparr>"
  let ?w0 = "\<lparr>facade = example_facade, created = []\<rparr>"
  let ?w1 = "step (TransactionFires 0 TxAbort) example_world"
  have h1: "createTransaction (Resolved example_database) False [ElementDataOS] ?w0
     = (Resolved ?t, example_world)"
    by (simp add: example_world_eq createTransaction_def example_transaction_start example_facade_eq)
  have h0: "f_activeTransactions (facade ?w0) = 0"
    by (simp add: example_facade_eq)
  have h3: "0 < length (created example_world) \<and> pending (wait (created example_world ! 0))"
    by (simp add: example_world_eq wait_def new_IndexedDbTransaction_def)
  have c1: "f_activeTransactions (facade example_world) = f_activeTransactions (facade ?w0) + 1"
    using activeTransactions_counts [where loaded = "Resolved example_database" and ro = False
        and names = "[ElementDataOS]" and w = ?w0 and tx = ?t and w' = example_world] h1
    by blast
  have c3: "f_activeTransactions (facade ?w1) = f_activeTransactions (facade example_world) - 1
       \<and> \<not> pending (wait (created ?w1 ! 0))"
    using activeTransactions_counts [where n = 0 and w = example_world and ev = TxAbort] h3
    by blast
  have h4: "0 < length (created ?w1) \<and> \<not> pending (wait (created ?w1 ! 0))"
    using c3 h3 by (simp add: Let_def fire_def)
  have c4: "f_activeTransactions (facade (step (TransactionFires 0 TxComplete) ?w1))
       = f_activeTransactions (facade ?w1)"
    using activeTransactions_counts [where n = 0 and w = ?w1 and ev = TxComplete] h4
    by blast
  have c5: "f_activeTransactions (facade (run [CreatesTransaction (Resolved example_database) False [ElementDataOS],
          TransactionFires 0 (TxError (Event [] None) None), TransactionFires 0 TxAbort]
          (new_world True False)))
      = int (unsettled (run [CreatesTransaction (Resolved example_database) False [ElementDataOS],
          TransactionFires 0 (TxError (Event [] None) None), TransactionFires 0 TxAbort]
          (new_world True False)))"
    using activeTransactions_counts [where isSupported = True and hasOnupgrade = False]
    by blast
  from h1 h0 h3 c1 c3 c4 c5 example_refused show ?thesis
    by (simp del: step.simps run.simps)
qed

subsection \<open>Failures are typed\<close>

lemma wraps_typed: "wraps p c \<Longrightarrow> typed p"
  by (cases "(p, c)" rule: wraps.cases) simp_all

lemma get_on_wraps: "wraps (get_on objectStore r) (request_cause r)"
  by (cases r) (simp_all add: get_on_def)

lemma getAsList_on_wraps: "wraps (getAsList_on objectStore r) (request_cause r)"
  by (cases r) (simp_all add: getAsList_on_def get_on_def)

lemma put_on_wraps: "wraps (put_on objectStore key v r) (request_cause r)"
  by (cases r) (simp_all add: put_on_def)

lemma delete_on_wraps: "wraps (delete_on objectStore r) (request_cause r)"
  by (cases r) (simp_all add: delete_on_def)

lemma getAll_events_wraps: "wraps (getAll_events objectStore es keys) (cursor_cause es)"
  by (induction objectStore es keys rule: getAll_events.induct)
     (simp_all split: option.splits)

lemma getAll_on_wraps:
  "wraps (getAll_on objectStore r)
     (case r of OpenCursorThrows e \<Rightarrow> Some (ErrorCause e) | CursorEvents es \<Rightarrow> cursor_cause es)"
  by (cases r) (simp_all add: getAll_on_def getAll_events_wraps)

lemma callback_typed: "typed p \<Longrightarrow> typed (callback p (CbError (Typed e)))"
  by (cases p rule: typed.cases) simp_all

lemma callback_value_typed: "typed p \<Longrightarrow> typed (callback p (CbValue v))"
  by (cases p rule: typed.cases) simp_all

lemma transaction_fires_typed: "typed p \<Longrightarrow> typed (transaction_fires e p)"
  by (cases e) (simp_all add: callback_typed callback_value_typed)

lemma fires_typed: "typed p \<Longrightarrow> typed (fires es p)"
  by (induction es arbitrary: p) (simp_all add: transaction_fires_typed)

lemma open_factory_typed: "typed (snd (open_factory f r))"
proof (cases r)
  case (OpenThrows e)
  then show ?thesis by (simp add: open_factory_def)
next
  case (OpenAnswers upgrade d final)
  then show ?thesis
    by (cases final)
       (simp_all add: open_factory_def Let_def callback_typed callback_value_typed
          split: option.splits)
qed

lemma then_promise_typed: "typed p \<Longrightarrow> typed (then_promise p g)"
  by (cases p rule: typed.cases) simp_all

lemma open_settles_typed: "typed (fst (snd (open_settles r f)))"
  by (simp add: open_settles_def Let_def then_promise_typed open_factory_typed)

lemma createTransaction_typed: "typed loaded \<Longrightarrow> typed (fst (createTransaction loaded ro names w))"
  by (cases loaded rule: typed.cases) (simp_all add: createTransaction_def split: sum.splits)

lemma delete_loaded_wraps:
  "wraps (fst (snd (delete_loaded w d (DeleteError ev)))) (Some (EventCause ev))"
  "wraps (fst (snd (delete_loaded w d DeleteSuccess))) None"
  by (simp_all add: delete_loaded_def)

lemma delete_loaded_typed:
  "(\<forall>e. r \<noteq> DeleteThrows e) \<Longrightarrow> typed (fst (snd (delete_loaded w d r)))"
  by (cases r) (simp_all add: delete_loaded_def)

lemma deleteDatabase_typed:
  assumes "\<forall>e. r \<noteq> DeleteThrows e"
  shows "typed (fst (snd (deleteDatabase w schedule r)))"
proof (induction schedule arbitrary: w)
  case Nil
  then show ?case
    using delete_loaded_typed [OF assms] by (simp split: option.splits)
next
  case (Cons hs schedule)
  from Cons.IH [of "run hs w"] show ?case
    using delete_loaded_typed [OF assms]
    by (cases "deleteDatabase (run hs w) schedule r") (simp split: option.splits)
qed

lemma deleteDatabase_raises:
  assumes "f_db (facade w) = Loaded d" and "\<not> f_activeTransactions (facade w) > 0"
  shows "deleteDatabase w schedule (DeleteThrows e) =
     ([CloseConnection (db_name d), IndexedDBDeleteDatabase (db_name d)],
      Rejected (Native e),
      w\<lparr>facade := (facade w)\<lparr>f_db := Loaded (d\<lparr>closed := True\<rparr>)\<rparr>\<rparr>)"
  using assms by (simp add: deleteDatabase_ready delete_loaded_def)

lemma open_factory_wraps:
  "wraps (snd (open_factory f (OpenThrows e))) (if supported f then Some (ErrorCause e) else None)"
  "wraps (snd (open_factory f (OpenAnswers None d (FinalError ev err))))
     (if supported f then map_option ErrorCause err else None)"
  by (simp_all add: open_factory_def)

lemma createTransaction_wraps:
  "wraps (fst (createTransaction (Resolved d) ro names w))
     (case idb_transaction d names ro of Inl e \<Rightarrow> Some (ErrorCause e) | Inr t \<Rightarrow> None)"
  by (simp add: createTransaction_def split: sum.splits)

lemma fires_error_wraps:
  "wraps (fires (TxError ev err # es) Pending) (map_option ErrorCause err)"
  by (simp add: fires_settled)

text \<open>
  Every call on the engine that stands in a \<open>try\<close> block, and every error event, reaches
  the caller as a DbError that carries the engine's error (or, for the delete request,
  its event) as cause; so does deleteDatabase as long as the call that places the
  delete request does not raise.
\<close>

lemma wrapped_failures:
  "typed (snd (open_factory f open_answer))
   \<and> wraps (snd (open_factory f (OpenThrows e))) (if supported f then Some (ErrorCause e) else None)
   \<and> wraps (snd (open_factory f (OpenAnswers None held (FinalError ev err))))
        (if supported f then map_option ErrorCause err else None)
   \<and> typed (fst (snd (open_settles open_answer f)))
   \<and> typed (fst (snd (deleteDatabase w schedule (DeleteError ev))))
   \<and> typed (fst (snd (deleteDatabase w schedule DeleteSuccess)))
   \<and> wraps (fst (snd (delete_loaded w d (DeleteError ev)))) (Some (EventCause ev))
   \<and> typed (fst (createTransaction (snd (open_factory f open_answer)) readOnly objectStores w))
   \<and> wraps (fst (createTransaction (Resolved d) readOnly objectStores w))
        (case idb_transaction d objectStores readOnly of
           Inl e \<Rightarrow> Some (ErrorCause e) | Inr t \<Rightarrow> None)
   \<and> wraps (get_on objectStore r) (request_cause r)
   \<and> wraps (getAsList_on objectStore r) (request_cause r)
   \<and> wraps (put_on objectStore key v r) (request_cause r)
   \<and> wraps (delete_on objectStore unit_answer) (request_cause unit_answer)
   \<and> wraps (getAll_on objectStore (OpenCursorThrows e)) (Some (ErrorCause e))
   \<and> wraps (getAll_on objectStore (CursorEvents es)) (cursor_cause es)
   \<and> typed (get t objectStore k indexName) \<and> typed (getAsList t objectStore k indexName)
   \<and> typed (fst (put t objectStore key v)) \<and> typed (fst (delete_entry t objectStore k))
   \<and> typed (fires events (wait (new_IndexedDbTransaction t)))
   \<and> wraps (fires (TxError ev err # events) (wait (new_IndexedDbTransaction t)))
        (map_option ErrorCause err)"
proof -
  have ops: "typed (get t objectStore k indexName) \<and> typed (getAsList t objectStore k indexName)
     \<and> typed (fst (put t objectStore key v)) \<and> typed (fst (delete_entry t objectStore k))"
    using wraps_typed [OF get_on_wraps] wraps_typed [OF put_on_wraps] wraps_typed [OF delete_on_wraps]
    by (simp add: get_def getAsList_def put_def delete_entry_def Let_def then_promise_typed)
  have w: "typed (fires events (wait (new_IndexedDbTransaction t)))
     \<and> wraps (fires (TxError ev err # events) (wait (new_IndexedDbTransaction t)))
        (map_option ErrorCause err)"
    using fires_error_wraps [of ev err events]
    by (simp add: fires_typed wait_def new_IndexedDbTransaction_def del: fires.simps)
  have g: "wraps (getAll_on objectStore (OpenCursorThrows e)) (Some (ErrorCause e))
     \<and> wraps (getAll_on objectStore (CursorEvents es)) (cursor_cause es)"
    using getAll_on_wraps [of objectStore "OpenCursorThrows e"]
      getAll_on_wraps [of objectStore "CursorEvents es"] by simp
  have dd: "typed (fst (snd (deleteDatabase w schedule (DeleteError ev))))
     \<and> typed (fst (snd (deleteDatabase w schedule DeleteSuccess)))"
    by (simp add: deleteDatabase_typed)
  show ?thesis
    by (simp add: ops w g dd open_factory_typed open_settles_typed
        delete_loaded_wraps createTransaction_typed [OF open_factory_typed] get_on_wraps
        getAsList_on_wraps put_on_wraps delete_on_wraps open_factory_wraps
        createTransaction_wraps del: fires.simps)
qed

text \<open>
  The DbError of wait carries \<open>transaction.error\<close>. When the error event of a failed
  request reaches the transaction that property is still null: the second put of the
  same word is refused with a ConstraintError, and wait is rejected with a DbError that
  has no cause.
\<close>

lemma wait_after_failed_put:
  "fst (put_request
         (t_transaction (created (step (Puts 0 SearchIndexMetaDataOS None example_word) metadata_world) ! 0))
         SearchIndexMetaDataOS None example_word)
     = Fails (Event [] (Some ConstraintError)) (Some ConstraintError)
   \<and> \<not> resolved (wait (created (run [Puts 0 SearchIndexMetaDataOS None example_word,
                                         Puts 0 SearchIndexMetaDataOS None example_word]
                                      metadata_world) ! 0))
   \<and> \<not> pending (wait (created (run [Puts 0 SearchIndexMetaDataOS None example_word,
                                        Puts 0 SearchIndexMetaDataOS None example_word]
                                     metadata_world) ! 0))
   \<and> wraps (wait (created (run [Puts 0 SearchIndexMetaDataOS None example_word,
                                  Puts 0 SearchIndexMetaDataOS None example_word]
                               metadata_world) ! 0)) None
   \<and> \<not> wraps (wait (created (run [Puts 0 SearchIndexMetaDataOS None example_word,
                                      Puts 0 SearchIndexMetaDataOS None example_word]
                                   metadata_world) ! 0)) (Some (ErrorCause ConstraintError))"
  by code_simp

text \<open>
  C7. A failure is meant to reach the caller as a DbError that wraps the native cause,
  never as the native error itself. deleteDatabase lets one through: on a loaded
  connection with no active transaction it closes the connection and calls
  \<open>indexedDB.deleteDatabase\<close> in a Promise.fromCallback body without a \<open>try\<close> block,
  so when that call raises the native error boom, the promise of deleteDatabase is
  rejected with that native error, not with a DbError.
\<close>

theorem deleteDatabase_rejects_with_native_error:
  "deleteDatabase \<lparr>facade = example_facade, created = []\<rparr> []
       (DeleteThrows (DOMException ''UnknownError'' ''boom'' []))
     = ([CloseConnection ''db1'', IndexedDBDeleteDatabase ''db1''],
        Rejected (Native (DOMException ''UnknownError'' ''boom'' [])),
        \<lparr>facade = example_facade\<lparr>f_db := Loaded (example_database\<lparr>closed := True\<rparr>)\<rparr>,
           created = []\<rparr>)
   \<and> \<not> typed (fst (snd (deleteDatabase \<lparr>facade = example_facade, created = []\<rparr> []
                            (DeleteThrows (DOMException ''UnknownError'' ''boom'' [])))))"
proof -
  have "deleteDatabase \<lparr>facade = example_facade, created = []\<rparr> []
       (DeleteThrows (DOMException ''UnknownError'' ''boom'' []))
     = ([CloseConnection ''db1'', IndexedDBDeleteDatabase ''db1''],
        Rejected (Native (DOMException ''UnknownError'' ''boom'' [])),
        \<lparr>facade = example_facade\<lparr>f_db := Loaded (example_database\<lparr>closed := True\<rparr>)\<rparr>,
           created = []\<rparr>)"
    using deleteDatabase_raises [of "\<lparr>facade = example_facade, created = []\<rparr>" example_database
        "[]" "DOMException ''UnknownError'' ''boom'' []"]
    by (simp add: example_facade_eq example_database_def)
  then show ?thesis by simp
qed

subsection \<open>The message of a failed request\<close>

lemma getAll_error_message:
  "getAll_on objectStore (CursorEvents [CursorError ev (Some e)])
     = Rejected (Typed (DbError (exn_message e) (Some (ErrorCause e))))"
  by (simp add: getAll_on_def getAll_onerror_message_def)

lemma getAll_error_null:
  "getAll_on objectStore (CursorEvents [CursorError ev None]) = Pending"
  by (simp add: getAll_on_def getAll_onerror_message_def)

lemma sublist_after3: "sublist x (a @ b @ c @ x @ d)"
  by (metis append_assoc sublist_appendI)

lemma get_error_names_store:
  assumes "get_on objectStore (Fails ev err) = Rejected (Typed (DbError m c))"
  shows "sublist objectStore m"
proof -
  from assms have "m = ''IndexedDbTransaction.get().onerror'' @ nl @ ''os: '' @ objectStore @ nl @
             ''event: '' @ extractErrorProperties (ev_props ev) @ nl @
             ''request.error:'' @ error_message_or_none err"
    by (simp add: get_on_def)
  then show ?thesis
    by (simp only: sublist_after3)
qed

lemma delete_error_names_store:
  assumes "delete_on objectStore (Fails ev err) = Rejected (Typed (DbError m c))"
  shows "sublist objectStore m"
proof -
  from assms have "m = ''IndexedDbTransaction.delete().onerror'' @ nl @ ''os: '' @ objectStore @ nl @
             ''event: '' @ extractErrorProperties (ev_props ev) @ nl @
             ''request.error:'' @ error_message_or_none err"
    by (simp add: delete_on_def)
  then show ?thesis
    by (simp only: sublist_after3)
qed

lemma put_error_names_store_key_value:
  assumes "put_on objectStore key v (Fails ev err) = Rejected (Typed (DbError m c))"
  shows "sublist objectStore m \<and> sublist (String_key key) m \<and> sublist (JSON_stringify v) m"
proof -
  let ?a = "''IndexedDbTransaction.put().onerror''"
  let ?e = "extractErrorProperties (ev_props ev)"
  let ?r = "error_message_or_none err"
  from assms have m: "m = ?a @ nl @ ''os: '' @ objectStore @ nl @ ''event: '' @ ?e @ nl @
             ''request.error:'' @ ?r @ nl @ ''key: '' @ String_key key @ nl @
             ''value: '' @ JSON_stringify v"
    by (simp add: put_on_def)
  have 1: "sublist objectStore m"
    by (simp only: m sublist_after3)
  have "m = (?a @ nl @ ''os: '' @ objectStore @ nl @ ''event: '' @ ?e @ nl @
             ''request.error:'' @ ?r @ nl @ ''key: '') @ String_key key @ (nl @
             ''value: '' @ JSON_stringify v)"
    by (simp add: m)
  then have 2: "sublist (String_key key) m"
    by (simp only: sublist_appendI)
  have "m = (?a @ nl @ ''os: '' @ objectStore @ nl @ ''event: '' @ ?e @ nl @
             ''request.error:'' @ ?r @ nl @ ''key: '' @ String_key key @ nl @
             ''value: '') @ JSON_stringify v"
    by (simp add: m)
  then have 3: "sublist (JSON_stringify v) m"
    by (simp only: sublist_append_leftI)
  from 1 2 3 show ?thesis by simp
qed

text \<open>
  C8. The message of a failed request is meant to name the store (the handlers of get,
  put and delete build it so, see above). The error handler of getAll does not: for a
  cursor request on ElementData that fails with the native message boom, the DbError
  handed to the caller has the message boom, in which the name of the store does not
  occur.
\<close>

theorem getAll_error_omits_store:
  "getAll_on ElementDataOS
     (CursorEvents [CursorError (Event [] (Some (DOMException ''UnknownError'' ''boom'' [])))
                      (Some (DOMException ''UnknownError'' ''boom'' []))])
   = Rejected (Typed (DbError ''boom''
       (Some (ErrorCause (DOMException ''UnknownError'' ''boom'' [])))))
   \<and> \<not> sublist ElementDataOS ''boom''"
proof -
  have "\<not> sublist ElementDataOS ''boom''"
    by (simp add: ElementDataOS_def sublist_code)
  then show ?thesis
    by (simp add: getAll_error_message)
qed

subsection \<open>The upgrade\<close>

lemma delete_absent: "map_of d n = None \<Longrightarrow> AList.delete n d = d"
  by (induction d) (auto split: if_splits)

lemma deleteObjectStores_result:
  "distinct names \<Longrightarrow>
   deleteObjectStores (log, d) names =
     (log @ concat (map (deletion_effects d) names), filter (\<lambda>p. fst p \<notin> set names) d)"
proof (induction names arbitrary: log d)
  case Nil
  then show ?case by simp
next
  case (Cons n names)
  have same: "\<forall>m \<in> set names. deletion_effects (AList.delete n d) m = deletion_effects d m"
    using Cons.prems by (auto simp: deletion_effects_def delete_conv)
  have fl: "filter (\<lambda>p. fst p \<notin> set names) (AList.delete n d) = filter (\<lambda>p. fst p \<notin> set (n # names)) d"
    by (induction d) auto
  have tl: "concat (map (deletion_effects (AList.delete n d)) names)
      = concat (map (deletion_effects d) names)"
    using same by (simp cong: map_cong)
  show ?case
  proof (cases "map_of d n")
    case None
    then have "deletion_effects d n =
        [DeleteObjectStore n,
         ConsoleLog (''Error while deleting old os '' @ n @ '' ignoring '' @
                     String_error (Some NotFoundError))]"
      by (simp add: deletion_effects_def)
    with None Cons fl show ?thesis
      by (simp add: idb_deleteObjectStore_def delete_absent)
  next
    case (Some os)
    then have "deletion_effects d n = [DeleteObjectStore n]"
      by (simp add: deletion_effects_def)
    with Some Cons fl tl show ?thesis
      by (simp add: idb_deleteObjectStore_def)
  qed
qed

lemma create_schema_log:
  "\<exists>k. fst (create_schema (log, d) steps) = log @ take k (map effect_of steps)"
proof (induction steps arbitrary: log d)
  case Nil
  then show ?case by simp
next
  case (Cons s steps)
  show ?case
  proof (cases s)
    case (NewStore n opts)
    show ?thesis
    proof (cases "idb_createObjectStore d n opts")
      case (Inl e)
      with NewStore have "fst (create_schema (log, d) (s # steps)) = log @ take 1 (map effect_of (s # steps))"
        by simp
      then show ?thesis by blast
    next
      case (Inr d')
      from Cons [of "log @ [CreateObjectStore n opts]" d'] obtain k where
        "fst (create_schema (log @ [CreateObjectStore n opts], d') steps)
           = (log @ [CreateObjectStore n opts]) @ take k (map effect_of steps)"
        by blast
      with Inr NewStore have "fst (create_schema (log, d) (s # steps)) = log @ take (Suc k) (map effect_of (s # steps))"
        by simp
      then show ?thesis by blast
    qed
  next
    case (NewIndex n i kp u)
    show ?thesis
    proof (cases "idb_createIndex d n i kp u")
      case (Inl e)
      with NewIndex have "fst (create_schema (log, d) (s # steps)) = log @ take 1 (map effect_of (s # steps))"
        by simp
      then show ?thesis by blast
    next
      case (Inr d')
      from Cons [of "log @ [CreateIndex n i kp u]" d'] obtain k where
        "fst (create_schema (log @ [CreateIndex n i kp u], d') steps)
           = (log @ [CreateIndex n i kp u]) @ take k (map effect_of steps)"
        by blast
      with Inr NewIndex have "fst (create_schema (log, d) (s # steps)) = log @ take (Suc k) (map effect_of (s # steps))"
        by simp
      then show ?thesis by blast
    qed
  qed
qed

lemma update_append_absent:
  "map_of d n = None \<Longrightarrow> AList.update n v (d @ ys) = d @ AList.update n v ys"
  by (induction d) (auto split: if_splits)

lemma create_schema_succeeds:
  assumes "\<forall>n \<in> set known_stores. map_of d n = None"
  shows "create_schema (log, d) schema = (log @ map effect_of schema, d @ fresh_stores, None)"
proof -
  from assms have absent:
    "map_of d ''SearchIndex'' = None" "map_of d ''SearchIndexMeta'' = None"
    "map_of d ''ElementData'' = None" "map_of d ''MetaData'' = None"
    "map_of d ''GroupMetaData'' = None" "map_of d ''SearchTermSuggestions'' = None"
    by (simp_all add: known_stores_def names_defs)
  show ?thesis
    by (simp add: schema_def names_defs fresh_stores_eq idb_createObjectStore_def
        idb_createIndex_def map_add_def absent update_append_absent)
qed

lemma create_schema_fails:
  assumes "\<not> (\<forall>n \<in> set known_stores. map_of d n = None)"
  shows "\<exists>e. snd (snd (create_schema (log, d) schema)) = Some e"
  using assms
  by (auto simp: schema_def names_defs known_stores_def idb_createObjectStore_def
        idb_createIndex_def map_add_def update_append_absent split: option.splits)

lemma filter_absent:
  "(\<forall>n \<in> set ks. map_of d n = None) \<Longrightarrow> filter (\<lambda>p. fst p \<notin> set ks) d = d"
proof (induction d)
  case Nil
  then show ?case by simp
next
  case (Cons p d)
  then show ?case by (cases p) (auto split: if_splits)
qed

lemma cleared_absent:
  "\<forall>n \<in> set ks. map_of (filter (\<lambda>p. fst p \<notin> set ks) d) n = None"
  by (induction d) auto

lemma distinct_known_stores: "distinct known_stores"
  by (simp add: known_stores_def names_defs)

lemma upgrade_from_old_version:
  assumes "oldVersion \<noteq> DB_VERSION" and "oldVersion \<noteq> 0"
  shows "onupgradeneeded u oldVersion d =
     ((if u then [CallOnupgrade] else []) @ concat (map (deletion_effects d) known_stores)
        @ map effect_of schema,
      filter (\<lambda>p. fst p \<notin> set known_stores) d @ fresh_stores,
      None)"
proof -
  have "deleteObjectStores ((if u then [CallOnupgrade] else []), d) known_stores =
      ((if u then [CallOnupgrade] else []) @ concat (map (deletion_effects d) known_stores),
       filter (\<lambda>p. fst p \<notin> set known_stores) d)"
    using distinct_known_stores by (rule deleteObjectStores_result)
  moreover have "create_schema
      ((if u then [CallOnupgrade] else []) @ concat (map (deletion_effects d) known_stores),
       filter (\<lambda>p. fst p \<notin> set known_stores) d) schema =
      (((if u then [CallOnupgrade] else []) @ concat (map (deletion_effects d) known_stores))
         @ map effect_of schema,
       filter (\<lambda>p. fst p \<notin> set known_stores) d @ fresh_stores, None)"
    using cleared_absent by (rule create_schema_succeeds)
  ultimately show ?thesis
    using assms by (simp add: onupgradeneeded_def known_stores_def Let_def)
qed

lemma upgrade_of_fresh_database_log:
  "CallOnupgrade \<notin> set (fst (onupgradeneeded u 0 d))
   \<and> DeleteObjectStore n \<notin> set (fst (onupgradeneeded u 0 d))"
proof -
  obtain k where "fst (create_schema ([], d) schema) = [] @ take k (map effect_of schema)"
    using create_schema_log by blast
  then have "set (fst (onupgradeneeded u 0 d)) \<subseteq> set (map effect_of schema)"
    using set_take_subset [of k "map effect_of schema"] by (simp add: onupgradeneeded_def Let_def)
  moreover have "CallOnupgrade \<notin> set (map effect_of schema)
     \<and> DeleteObjectStore n \<notin> set (map effect_of schema)"
    by (simp add: schema_def)
  ultimately show ?thesis by blast
qed

lemma upgrade_without_failure:
  assumes "snd (snd (onupgradeneeded u oldVersion d)) = None"
  shows "fst (snd (onupgradeneeded u oldVersion d))
         = filter (\<lambda>p. fst p \<notin> set known_stores) d @ fresh_stores"
proof (cases "oldVersion \<noteq> DB_VERSION \<and> oldVersion \<noteq> 0")
  case True
  then show ?thesis by (simp add: upgrade_from_old_version)
next
  case False
  with assms have none: "snd (snd (create_schema ([], d) schema)) = None"
    by (auto simp: onupgradeneeded_def Let_def)
  then have absent: "\<forall>n \<in> set known_stores. map_of d n = None"
    using create_schema_fails [of d "[]"] by fastforce
  then have "create_schema ([], d) schema = ([] @ map effect_of schema, d @ fresh_stores, None)"
    by (rule create_schema_succeeds)
  with False absent show ?thesis
    by (auto simp: onupgradeneeded_def filter_absent Let_def)
qed

lemma upgrade_failure_fails_open:
  assumes "snd (snd (onupgradeneeded (onupgrade f) oldVersion d)) = Some err"
    and "supported f"
  shows "(\<exists>e. err = DbError ''could not create object store searchindex'' (Some (ErrorCause e)))
         \<and> snd (open_factory f (OpenAnswers (Some oldVersion) d final)) = Rejected (Typed err)"
proof -
  from assms(1) have "\<exists>e. err = DbError ''could not create object store searchindex'' (Some (ErrorCause e))"
    by (auto simp: onupgradeneeded_def Let_def)
  moreover from assms have "snd (open_factory f (OpenAnswers (Some oldVersion) d final)) = Rejected (Typed err)"
    by (cases final) (simp_all add: open_factory_def Let_def)
  ultimately show ?thesis by simp
qed

lemma fresh_stores_indexes:
  "map fst fresh_stores =
     [SearchIndexOS, SearchIndexMetaDataOS, ElementDataOS, MetaDataOS, GroupDataOS,
      SearchTermSuggestionsOS]
   \<and> concat (map (\<lambda>p. map (\<lambda>i. (fst p, i)) (indexes (snd p))) fresh_stores) =
     [(SearchIndexMetaDataOS, SearchIndexWordsIndex, \<lparr>index_keyPath = ''word'', unique = True\<rparr>)]
   \<and> (\<forall>p \<in> set fresh_stores. entries (snd p) = [])"
  by (simp add: fresh_stores_eq names_defs)


lemma upgrade_log_tail:
  "CallOnupgrade \<notin> set (concat (map (deletion_effects d) known_stores) @ map effect_of schema)"
  by (simp add: deletion_effects_def schema_def)

text \<open>
  C4. The upgrade handler. For an old version that is neither the current one nor 0:
  the log is the call of the user's callback (once, and only if one was given), then
  one deletion per known store (a missing store leaves a console message and the loop
  goes on), then the creation of the six stores and of the index; the stores afterwards
  are those the schema does not know, untouched, followed by the six fresh ones; nothing
  fails. For old version 0 the log holds no callback and no deletion, and on an empty
  database the six stores and the index are created. Whenever the handler reports no
  failure the six fresh stores are there, with exactly one index: the unique index on
  the word property of the search index metadata store. When a creation fails, the
  handler passes a DbError to the callback of open, and the promise of open is
  rejected with it whatever the request fires afterwards.
\<close>

theorem upgrade_behaviour:
  "(oldVersion \<noteq> DB_VERSION \<and> oldVersion \<noteq> 0 \<longrightarrow>
      onupgradeneeded u oldVersion d =
        ((if u then [CallOnupgrade] else []) @ concat (map (deletion_effects d) known_stores)
           @ map effect_of schema,
         filter (\<lambda>p. fst p \<notin> set known_stores) d @ fresh_stores,
         None))
   \<and> CallOnupgrade \<notin> set (concat (map (deletion_effects d) known_stores) @ map effect_of schema)
   \<and> CallOnupgrade \<notin> set (fst (onupgradeneeded u 0 d))
   \<and> DeleteObjectStore n \<notin> set (fst (onupgradeneeded u 0 d))
   \<and> onupgradeneeded u 0 [] = (map effect_of schema, fresh_stores, None)
   \<and> (snd (snd (onupgradeneeded u oldVersion d)) = None \<longrightarrow>
        fst (snd (onupgradeneeded u oldVersion d))
          = filter (\<lambda>p. fst p \<notin> set known_stores) d @ fresh_stores)
   \<and> map fst fresh_stores =
        [SearchIndexOS, SearchIndexMetaDataOS, ElementDataOS, MetaDataOS, GroupDataOS,
         SearchTermSuggestionsOS]
   \<and> concat (map (\<lambda>p. map (\<lambda>i. (fst p, i)) (indexes (snd p))) fresh_stores) =
        [(SearchIndexMetaDataOS, SearchIndexWordsIndex,
          \<lparr>index_keyPath = ''word'', unique = True\<rparr>)]
   \<and> (snd (snd (onupgradeneeded (onupgrade f) oldVersion d)) = Some err \<and> supported f \<longrightarrow>
        (\<exists>e. err = DbError ''could not create object store searchindex'' (Some (ErrorCause e)))
        \<and> snd (open_factory f (OpenAnswers (Some oldVersion) d final)) = Rejected (Typed err))"
proof -
  have fresh: "onupgradeneeded u 0 [] = (map effect_of schema, fresh_stores, None)"
    using create_schema_succeeds [of "[]" "[]"] by (simp add: onupgradeneeded_def Let_def)
  show ?thesis
    using upgrade_from_old_version [of oldVersion u d] upgrade_log_tail [of d]
      upgrade_of_fresh_database_log [of u d n] fresh upgrade_without_failure [of u oldVersion d]
      fresh_stores_indexes upgrade_failure_fails_open [of f oldVersion d err final]
    by blast
qed

lemma old_stores_upgraded:
  "filter (\<lambda>p. fst p \<notin> set known_stores) old_stores @ fresh_stores
   = (''Legacy'',
        \<lparr>options = \<lparr>keyPath = None, autoIncrement = True\<rparr>,
           entries = [(KNum 1, JStr ''x'')], generator = 2, indexes = []\<rparr>) # fresh_stores"
  by (simp add: old_stores_def known_stores_def names_defs)

lemma old_stores_deletions:
  "concat (map (deletion_effects old_stores) known_stores) =
     [DeleteObjectStore SearchIndexOS,
      ConsoleLog (''Error while deleting old os '' @ SearchIndexOS @ '' ignoring '' @
                  String_error (Some NotFoundError)),
      DeleteObjectStore ElementDataOS,
      DeleteObjectStore MetaDataOS,
      ConsoleLog (''Error while deleting old os '' @ MetaDataOS @ '' ignoring '' @
                  String_error (Some NotFoundError)),
      DeleteObjectStore GroupDataOS,
      ConsoleLog (''Error while deleting old os '' @ GroupDataOS @ '' ignoring '' @
                  String_error (Some NotFoundError)),
      DeleteObjectStore SearchTermSuggestionsOS,
      ConsoleLog (''Error while deleting old os '' @ SearchTermSuggestionsOS @ '' ignoring '' @
                  String_error (Some NotFoundError)),
      DeleteObjectStore SearchIndexMetaDataOS,
      ConsoleLog (''Error while deleting old os '' @ SearchIndexMetaDataOS @ '' ignoring '' @
                  String_error (Some NotFoundError))]"
  by (simp add: old_stores_def known_stores_def names_defs deletion_effects_def)

lemma old_stores_refused:
  "snd (snd (onupgradeneeded False 0 old_stores))
     = Some (DbError ''could not create object store searchindex'' (Some (ErrorCause ConstraintError)))"
  by (simp add: onupgradeneeded_def Let_def schema_def old_stores_def names_defs
      idb_createObjectStore_def)

theorem upgrade_behaviour_witness:
  "(2::int) \<noteq> DB_VERSION \<and> (2::int) \<noteq> 0
   \<and> onupgradeneeded True 2 old_stores =
       ([CallOnupgrade] @ concat (map (deletion_effects old_stores) known_stores)
          @ map effect_of schema,
        (''Legacy'',
          \<lparr>options = \<lparr>keyPath = None, autoIncrement = True\<rparr>,
             entries = [(KNum 1, JStr ''x'')], generator = 2, indexes = []\<rparr>) # fresh_stores,
        None)
   \<and> snd (snd (onupgradeneeded True 2 old_stores)) = None
   \<and> snd (snd (onupgradeneeded False 0 old_stores))
       = Some (DbError ''could not create object store searchindex'' (Some (ErrorCause ConstraintError)))
   \<and> supported (new_DbFacade True False)
   \<and> snd (open_factory (new_DbFacade True False) (OpenAnswers (Some 0) old_stores FinalSuccess))
       = Rejected (Typed (DbError ''could not create object store searchindex''
                            (Some (ErrorCause ConstraintError))))"
proof -
  have h: "(2::int) \<noteq> DB_VERSION \<and> (2::int) \<noteq> 0"
    by (simp add: DB_VERSION_def)
  have c1: "onupgradeneeded True 2 old_stores =
       ((if True then [CallOnupgrade] else []) @ concat (map (deletion_effects old_stores) known_stores)
          @ map effect_of schema,
        filter (\<lambda>p. fst p \<notin> set known_stores) old_stores @ fresh_stores,
        None)"
    using upgrade_behaviour [where oldVersion = 2 and u = True and d = old_stores] h
    by blast
  have h2: "snd (snd (onupgradeneeded (onupgrade (new_DbFacade True False)) 0 old_stores))
       = Some (DbError ''could not create object store searchindex'' (Some (ErrorCause ConstraintError)))
     \<and> supported (new_DbFacade True False)"
    using old_stores_refused by (simp add: new_DbFacade_def)
  have c2: "snd (open_factory (new_DbFacade True False) (OpenAnswers (Some 0) old_stores FinalSuccess))
       = Rejected (Typed (DbError ''could not create object store searchindex''
                            (Some (ErrorCause ConstraintError))))"
    using upgrade_behaviour [where f = "new_DbFacade True False" and oldVersion = 0
        and d = old_stores and final = FinalSuccess
        and err = "DbError ''could not create object store searchindex''
                     (Some (ErrorCause ConstraintError))"] h2
    by blast
  from h c1 c2 h2 old_stores_refused show ?thesis
    by (simp add: old_stores_upgraded)
qed

subsection \<open>Reading what was put\<close>

lemma put_resolved:
  assumes "put t s (Some k) v = (Resolved r, t')" and "truthy_key (Some k)"
  shows "r = jsval_of_key k
         \<and> (\<exists>os. idb_objectStore t s = Inr os
              \<and> t' = t\<lparr>tx_stores :=
                       AList.update s
                         (os\<lparr>entries := AList.update k v (entries os),
                             generator := next_generator os k\<rparr>)
                         (tx_stores t)\<rparr>)"
  using assms
  by (auto simp: put_def idb_put_def put_on_def store_entry_def Let_def
      split: sum.splits if_splits option.splits)

lemma objectStore_frame:
  assumes "idb_objectStore t s = Inr os"
  shows "idb_objectStore (t\<lparr>tx_stores := AList.update s os' (tx_stores t)\<rparr>) s2
         = (if s2 = s then Inr os' else idb_objectStore t s2)"
  using assms
  by (auto simp: idb_objectStore_def update_conv' split: if_splits option.splits)

lemma lookup_after_put:
  assumes "put t s (Some k) v = (Resolved r, t')" and "truthy_key (Some k)"
  shows "idb_lookup t' s2 k2 None
         = (if s2 = s \<and> k2 = k then Inr (Some v) else idb_lookup t s2 k2 None)"
proof -
  from put_resolved [OF assms] obtain os where
    os: "idb_objectStore t s = Inr os" and
    t': "t' = t\<lparr>tx_stores :=
                 AList.update s
                   (os\<lparr>entries := AList.update k v (entries os), generator := next_generator os k\<rparr>)
                   (tx_stores t)\<rparr>"
    by blast
  show ?thesis
    using os by (simp add: t' idb_lookup_def objectStore_frame [OF os] update_conv')
qed

lemma puts_Cons_resolved:
  assumes "\<forall>p \<in> set (fst (puts t ((s, k, v) # calls))). resolved p"
  shows "\<exists>r. put t s (Some k) v = (Resolved r, snd (put t s (Some k) v))"
    and "\<forall>p \<in> set (fst (puts (snd (put t s (Some k) v)) calls)). resolved p"
proof -
  from assms have "resolved (fst (put t s (Some k) v))" by simp
  then show "\<exists>r. put t s (Some k) v = (Resolved r, snd (put t s (Some k) v))"
    by (cases "fst (put t s (Some k) v)") (auto simp: prod_eq_iff)
  from assms show "\<forall>p \<in> set (fst (puts (snd (put t s (Some k) v)) calls)). resolved p"
    by simp
qed

lemma lookup_preserved:
  assumes "\<forall>c \<in> set calls. truthy_key (Some (fst (snd c)))"
    and "\<forall>p \<in> set (fst (puts t calls)). resolved p"
    and "last_put calls s k = None"
  shows "idb_lookup (snd (puts t calls)) s k None = idb_lookup t s k None"
  using assms
proof (induction calls arbitrary: t)
  case Nil
  then show ?case by simp
next
  case (Cons c calls)
  obtain s' k' v' where c: "c = (s', k', v')" by (cases c)
  from Cons.prems(2) c obtain r where
    put: "put t s' (Some k') v' = (Resolved r, snd (put t s' (Some k') v'))"
    using puts_Cons_resolved(1) by blast
  from Cons.prems(2) c have rest: "\<forall>p \<in> set (fst (puts (snd (put t s' (Some k') v')) calls)). resolved p"
    using puts_Cons_resolved(2) by blast
  from Cons.prems(1) c have tk: "truthy_key (Some k')" by simp
  from Cons.prems(3) c have none: "last_put calls s k = None" and other: "\<not> (s' = s \<and> k' = k)"
    by (auto split: option.splits if_splits)
  from Cons.prems(1) have "\<forall>c \<in> set calls. truthy_key (Some (fst (snd c)))" by simp
  from Cons.IH [OF this rest none]
  have "idb_lookup (snd (puts (snd (put t s' (Some k') v')) calls)) s k None
        = idb_lookup (snd (put t s' (Some k') v')) s k None" .
  also have "\<dots> = idb_lookup t s k None"
    using lookup_after_put [OF put tk, of s k] other by auto
  finally show ?case using c by simp
qed

lemma lookup_last_put:
  assumes "\<forall>c \<in> set calls. truthy_key (Some (fst (snd c)))"
    and "\<forall>p \<in> set (fst (puts t calls)). resolved p"
    and "last_put calls s k = Some v"
  shows "idb_lookup (snd (puts t calls)) s k None = Inr (Some v)"
  using assms
proof (induction calls arbitrary: t)
  case Nil
  then show ?case by simp
next
  case (Cons c calls)
  obtain s' k' v' where c: "c = (s', k', v')" by (cases c)
  from Cons.prems(2) c obtain r where
    put: "put t s' (Some k') v' = (Resolved r, snd (put t s' (Some k') v'))"
    using puts_Cons_resolved(1) by blast
  from Cons.prems(2) c have rest: "\<forall>p \<in> set (fst (puts (snd (put t s' (Some k') v')) calls)). resolved p"
    using puts_Cons_resolved(2) by blast
  from Cons.prems(1) c have tk: "truthy_key (Some k')" by simp
  from Cons.prems(1) have tks: "\<forall>c \<in> set calls. truthy_key (Some (fst (snd c)))" by simp
  show ?case
  proof (cases "last_put calls s k")
    case (Some w)
    with Cons.prems(3) c have "w = v" by simp
    with Some Cons.IH [OF tks rest] c show ?thesis by simp
  next
    case None
    with Cons.prems(3) c have same: "s' = s" "k' = k" "v' = v"
      by (auto split: if_splits)
    from lookup_preserved [OF tks rest None]
    have "idb_lookup (snd (puts (snd (put t s' (Some k') v')) calls)) s k None
          = idb_lookup (snd (put t s' (Some k') v')) s k None" .
    also have "\<dots> = Inr (Some v)"
      using lookup_after_put [OF put tk, of s k] same by simp
    finally show ?thesis using c by simp
  qed
qed

lemma puts_results:
  assumes "\<forall>c \<in> set calls. truthy_key (Some (fst (snd c)))"
    and "\<forall>p \<in> set (fst (puts t calls)). resolved p"
  shows "fst (puts t calls) = map (\<lambda>c. Resolved (jsval_of_key (fst (snd c)))) calls"
  using assms
proof (induction calls arbitrary: t)
  case Nil
  then show ?case by simp
next
  case (Cons c calls)
  obtain s' k' v' where c: "c = (s', k', v')" by (cases c)
  from Cons.prems(2) c obtain r where
    put: "put t s' (Some k') v' = (Resolved r, snd (put t s' (Some k') v'))"
    using puts_Cons_resolved(1) by blast
  from Cons.prems(2) c have rest: "\<forall>p \<in> set (fst (puts (snd (put t s' (Some k') v')) calls)). resolved p"
    using puts_Cons_resolved(2) by blast
  from Cons.prems(1) c have tk: "truthy_key (Some k')" by simp
  from Cons.prems(1) have tks: "\<forall>c \<in> set calls. truthy_key (Some (fst (snd c)))" by simp
  from put_resolved [OF put tk] have "r = jsval_of_key k'" by simp
  with put have "fst (put t s' (Some k') v') = Resolved (jsval_of_key k')"
    by (simp add: prod_eq_iff)
  with Cons.IH [OF tks rest] c show ?case by simp
qed


text \<open>
  C5, as amended. Within one transaction, for a sequence of put(store, key, value)
  calls whose keys are truthy (a non-empty string or a number other than 0) and which
  all resolve, and for a store and key that the sequence puts, a subsequent
  get(store, key) resolves with the value of the last put for that store and key; and
  every put of the sequence resolves with its key.
\<close>

theorem get_after_puts:
  assumes "\<forall>c \<in> set calls. truthy_key (Some (fst (snd c)))"
    and "\<forall>p \<in> set (fst (puts t calls)). resolved p"
    and "last_put calls s k = Some v"
  shows "get (snd (puts t calls)) s k None = Resolved v
         \<and> fst (puts t calls) = map (\<lambda>c. Resolved (jsval_of_key (fst (snd c)))) calls"
  using lookup_last_put [OF assms] puts_results [OF assms(1,2)]
  by (simp add: get_of_lookup)

lemma example_puts_run:
  "fst (puts example_transaction example_puts)
     = [Resolved (JStr ''k1''), Resolved (JStr ''k2''), Resolved (JStr ''k1'')]"
  by (simp add: example_puts_def put_def idb_put_def store_entry_def violates_unique_def
      idb_objectStore_def put_on_def example_transaction_def fresh_stores_eq names_defs)

theorem get_after_puts_witness:
  "truthy_key (Some (KStr ''k1'')) \<and> truthy_key (Some (KStr ''k2''))
   \<and> fst (puts example_transaction example_puts)
       = [Resolved (JStr ''k1''), Resolved (JStr ''k2''), Resolved (JStr ''k1'')]
   \<and> last_put example_puts ElementDataOS (KStr ''k1'') = Some (JNum 2)
   \<and> get (snd (puts example_transaction example_puts)) ElementDataOS (KStr ''k1'') None
       = Resolved (JNum 2)"
proof -
  have h1: "\<forall>c \<in> set example_puts. truthy_key (Some (fst (snd c)))"
    by (simp add: example_puts_def)
  have h2: "\<forall>p \<in> set (fst (puts example_transaction example_puts)). resolved p"
    by (simp add: example_puts_run)
  have h3: "last_put example_puts ElementDataOS (KStr ''k1'') = Some (JNum 2)"
    by (simp add: example_puts_def)
  from get_after_puts [OF h1 h2 h3] h3 example_puts_run show ?thesis
    by simp
qed

lemma put_with_falsy_key:
  "fst (put example_transaction ElementDataOS (Some (KNum 0)) (JNum 5))
     = put_on ElementDataOS (Some (KNum 0)) (JNum 5) (Throws DataError)
   \<and> get (snd (put example_transaction ElementDataOS (Some (KNum 0)) (JNum 5)))
        ElementDataOS (KNum 0) None = Resolved Undefined"
  by (simp add: put_def idb_put_def idb_objectStore_def get_of_lookup idb_lookup_def
      example_transaction_def fresh_stores_eq names_defs)

lemma put_with_key_into_keypath_store:
  "put example_transaction SearchIndexMetaDataOS (Some (KNum 7))
          (JObj [(''id'', JNum 7), (''word'', JStr ''w'')])
     = (put_on SearchIndexMetaDataOS (Some (KNum 7)) (JObj [(''id'', JNum 7), (''word'', JStr ''w'')])
         (Throws DataError), example_transaction)"
  by (simp add: put_def idb_put_def idb_objectStore_def example_transaction_def
      fresh_stores_eq names_defs)

text \<open>
  C5, as stated, fails on the store of the search index metadata, which takes its keys
  from the id property of the value: the engine refuses a put with an explicit key, so
  put(SearchIndexMeta, 7, value) is rejected and a subsequent get(SearchIndexMeta, 7)
  resolves with undefined, not with the value. It also fails for a falsy key, which
  put does not pass on: put(ElementData, 0, 5) places \<open>put(value)\<close>, which a store
  without key path and generator refuses, and get(ElementData, 0) resolves with
  undefined.
\<close>

theorem get_after_put_fails:
  "\<not> resolved (fst (put example_transaction SearchIndexMetaDataOS (Some (KNum 7))
          (JObj [(''id'', JNum 7), (''word'', JStr ''w'')])))
   \<and> get (snd (put example_transaction SearchIndexMetaDataOS (Some (KNum 7))
               (JObj [(''id'', JNum 7), (''word'', JStr ''w'')])))
        SearchIndexMetaDataOS (KNum 7) None = Resolved Undefined
   \<and> get (snd (put example_transaction SearchIndexMetaDataOS (Some (KNum 7))
               (JObj [(''id'', JNum 7), (''word'', JStr ''w'')])))
        SearchIndexMetaDataOS (KNum 7) None
      \<noteq> Resolved (JObj [(''id'', JNum 7), (''word'', JStr ''w'')])
   \<and> \<not> resolved (fst (put example_transaction ElementDataOS (Some (KNum 0)) (JNum 5)))
   \<and> get (snd (put example_transaction ElementDataOS (Some (KNum 0)) (JNum 5)))
        ElementDataOS (KNum 0) None
      \<noteq> Resolved (JNum 5)"
proof -
  have g: "get example_transaction SearchIndexMetaDataOS (KNum 7) None = Resolved Undefined"
    by (simp add: get_of_lookup idb_lookup_def idb_objectStore_def example_transaction_def
        fresh_stores_eq names_defs)
  show ?thesis
    using put_with_falsy_key
    by (simp add: put_with_key_into_keypath_store g put_on_def)
qed

end
